theory Spec2Isabelle
  imports Main
begin

unbundle bit_operations_syntax

section \<open>The emitted IR: LLVM values as objects in a store\<close>

text \<open>
  The reader (\<^verbatim>\<open>lib/SPIRV/SPRVReader.cpp\<close>) builds an LLVM module through LLVM's C++ API.
  The API objects are modelled as records in a store: an \<open>addr\<close> is an \<^verbatim>\<open>llvm::Value*\<close>,
  the null pointer is \<open>None\<close>.  Every value has a name, a type and an operand list; a
  function, a global variable and a call carry a linkage, a calling convention and an
  attribute set as well.  An instruction knows the basic block it is linked into
  (\<open>Parent\<close>); the module lists its global variables and its functions.
\<close>

type_synonym addr = nat

datatype LType =
    VoidTy
  | IntegerTy nat
  | HalfTy
  | FloatTy
  | DoubleTy
  | ArrayTy LType nat
  | PointerTy LType nat
  | VectorTy LType nat
  | StructTy string "LType list" bool
  | OpaqueStructTy string
  | FunctionTy LType "LType list" bool

datatype LinkageTypes =
    ExternalLinkage
  | AvailableExternallyLinkage
  | LinkOnceODRLinkage
  | InternalLinkage
  | PrivateLinkage
  | CommonLinkage

datatype CallingConvID = CallingConv_C | SPIR_FUNC | SPIR_KERNEL

datatype AttrKind =
    NoUnwind | ReadNone | ReadOnly | AlwaysInline | NoInline
  | ZExtAttr | SExtAttr | ByVal | StructRet | NoAlias | NoCapture

text \<open>Attribute slots of a function or a call: \<^verbatim>\<open>AttributeSet::FunctionIndex\<close>,
  \<^verbatim>\<open>AttributeSet::ReturnIndex\<close>, and parameter \<open>i\<close> (the source writes \<open>ArgNo + 1\<close>).  An
  attribute set gives the attributes of each slot.\<close>

datatype AttrIndex = FunctionIndex | ReturnIndex | ParamIndex nat

datatype CastOps =
    Trunc | ZExt | SExt | FPToUI | FPToSI | UIToFP | SIToFP | FPTrunc | FPExt
  | PtrToInt | IntToPtr | BitCast | AddrSpaceCast

datatype ValueKind =
    GlobalVariableK
  | FunctionK
  | ArgumentK
  | BasicBlockK
  | ConstantIntK int
  | ConstantK
  | LoadInstK
  | CallInstK
  | CastInstK CastOps
  | InstructionK

record LValue =
  VKind :: ValueKind
  VName :: string
  VType :: LType
  Operands :: "addr option list"
  Parent :: "addr option"
  Linkage :: LinkageTypes
  CallConv :: CallingConvID
  Attrs :: "AttrIndex \<Rightarrow> AttrKind set"

text \<open>
  The translator object \<^verbatim>\<open>SPRVToLLVM\<close> (lines 156-316) with the module \<^verbatim>\<open>M\<close> it fills.
  SPIR-V values are map keys by identity (\<^verbatim>\<open>SPRVValue*\<close>), here a number \<open>sid\<close>.
  \<open>FuncArgs\<close> is the argument list of each function, \<open>LastUnique\<close> the counter of the
  module's symbol table.
\<close>

type_synonym sid = nat

record TState =
  Heap :: "addr \<rightharpoonup> LValue"
  NextAddr :: addr
  ModGlobals :: "addr list"
  ModFunctions :: "addr list"
  FuncArgs :: "addr \<Rightarrow> addr list"
  BlockInsts :: "addr \<Rightarrow> addr list"
  LastUnique :: nat
  TargetTriple :: string
  DataLayout :: string
  ValueMap :: "sid \<rightharpoonup> addr"
  FuncMap :: "sid \<rightharpoonup> addr"
  PlaceholderMap :: "sid \<rightharpoonup> addr"

text \<open>What stops a run: a failed \<^verbatim>\<open>assert\<close> of the source (with its message), a
  member call through a null pointer, and an access to a vector element that is not
  there.\<close>

datatype error =
    AssertionFailed string
  | NullPointerDereference
  | OutOfBounds

subsection \<open>API calls the reader uses\<close>

text \<open>\<^verbatim>\<open>StringRef::startswith\<close>.\<close>

fun startswith :: "string \<Rightarrow> string \<Rightarrow> bool" where
  "startswith s [] = True"
| "startswith [] (p # ps) = False"
| "startswith (c # cs) (p # ps) = (c = p \<and> startswith cs ps)"

text \<open>\<^verbatim>\<open>dyn_cast<LoadInst>\<close> and \<^verbatim>\<open>dyn_cast<GlobalVariable>\<close>: the pointer itself when the
  object has that class, null otherwise.\<close>

definition dyn_cast_LoadInst :: "TState \<Rightarrow> addr \<Rightarrow> addr option" where
  "dyn_cast_LoadInst s a =
     (case Heap s a of
        None \<Rightarrow> None
      | Some v \<Rightarrow> if VKind v = LoadInstK then Some a else None)"

definition dyn_cast_GlobalVariable :: "TState \<Rightarrow> addr option \<Rightarrow> addr option" where
  "dyn_cast_GlobalVariable s p =
     (case p of
        None \<Rightarrow> None
      | Some a \<Rightarrow>
          (case Heap s a of
             None \<Rightarrow> None
           | Some v \<Rightarrow> if VKind v = GlobalVariableK then Some a else None))"

text \<open>\<^verbatim>\<open>LoadInst::getPointerOperand\<close>: operand 0.\<close>

definition getPointerOperand :: "TState \<Rightarrow> addr \<Rightarrow> addr option" where
  "getPointerOperand s ld =
     (case Heap s ld of
        None \<Rightarrow> None
      | Some v \<Rightarrow> (case Operands v of [] \<Rightarrow> None | p # _ \<Rightarrow> p))"

definition getName :: "TState \<Rightarrow> addr \<Rightarrow> string" where
  "getName s a = (case Heap s a of None \<Rightarrow> [] | Some v \<Rightarrow> VName v)"

text \<open>\<^verbatim>\<open>Value::replaceAllUsesWith\<close>: every operand slot that holds \<open>old\<close> holds \<open>new\<close>
  afterwards.\<close>

definition replaceUse :: "addr \<Rightarrow> addr \<Rightarrow> addr option \<Rightarrow> addr option" where
  "replaceUse old new p = (if p = Some old then Some new else p)"

definition replaceAllUsesWith :: "addr \<Rightarrow> addr \<Rightarrow> TState \<Rightarrow> TState" where
  "replaceAllUsesWith old new s =
     s\<lparr>Heap := (\<lambda>a. map_option
                       (\<lambda>v. v\<lparr>Operands := map (replaceUse old new) (Operands v)\<rparr>)
                       (Heap s a))\<rparr>"

text \<open>\<^verbatim>\<open>User::dropAllReferences\<close>: every operand slot of the object becomes null.\<close>

definition dropAllReferences :: "addr \<Rightarrow> TState \<Rightarrow> TState" where
  "dropAllReferences a s =
     (case Heap s a of
        None \<Rightarrow> s
      | Some v \<Rightarrow> s\<lparr>Heap := (Heap s)(a \<mapsto> v\<lparr>Operands := map (\<lambda>_. None) (Operands v)\<rparr>)\<rparr>)"

text \<open>\<^verbatim>\<open>Instruction::removeFromParent\<close> unlinks the instruction from its basic block; it
  goes through the parent pointer, so an instruction that is in no block is a null
  dereference.  \<^verbatim>\<open>GlobalVariable::removeFromParent\<close> unlinks the variable from the
  module's list of globals in the same way.\<close>

definition removeFromParent_Inst :: "addr \<Rightarrow> TState \<Rightarrow> error + TState" where
  "removeFromParent_Inst a s =
     (case Heap s a of
        None \<Rightarrow> Inl NullPointerDereference
      | Some v \<Rightarrow>
          (case Parent v of
             None \<Rightarrow> Inl NullPointerDereference
           | Some bb \<Rightarrow>
               Inr (s\<lparr>Heap := (Heap s)(a \<mapsto> v\<lparr>Parent := None\<rparr>),
                      BlockInsts := (BlockInsts s)(bb := removeAll a (BlockInsts s bb))\<rparr>)))"

definition removeFromParent_GV :: "addr \<Rightarrow> TState \<Rightarrow> error + TState" where
  "removeFromParent_GV a s =
     (if a \<in> set (ModGlobals s)
      then Inr (s\<lparr>ModGlobals := removeAll a (ModGlobals s)\<rparr>)
      else Inl NullPointerDereference)"

text \<open>
  LLVM's symbol table of a module (\<^verbatim>\<open>ValueSymbolTable::createValueName\<close>): a global value
  asks for a name and gets it when the name is free; when it is taken, the table appends
  the next value of its counter \<open>LastUnique\<close> until the result is free.  An empty name
  is no name.  With \<open>n\<close> names in the table at most \<open>n\<close> candidates can be taken, so the
  loop is a recursion on that bound.
\<close>

definition digitChar :: "nat \<Rightarrow> char" where
  "digitChar d = ''0123456789'' ! d"

fun showNat :: "nat \<Rightarrow> string" where
  "showNat n = (if n < 10 then [digitChar n] else showNat (n div 10) @ [digitChar (n mod 10)])"

declare showNat.simps [simp del]

fun uniqueSuffix :: "nat \<Rightarrow> string list \<Rightarrow> string \<Rightarrow> nat \<Rightarrow> nat" where
  "uniqueSuffix 0 taken n c = Suc c"
| "uniqueSuffix (Suc fuel) taken n c =
     (if n @ showNat (Suc c) \<in> set taken then uniqueSuffix fuel taken n (Suc c) else Suc c)"

definition moduleSymbols :: "TState \<Rightarrow> string list" where
  "moduleSymbols s = map (getName s) (ModGlobals s @ ModFunctions s)"

definition createValueName :: "string \<Rightarrow> TState \<Rightarrow> string \<times> TState" where
  "createValueName n s =
     (if n = [] \<or> n \<notin> set (moduleSymbols s) then (n, s)
      else (let k = uniqueSuffix (length (moduleSymbols s)) (moduleSymbols s) n (LastUnique s)
            in (n @ showNat k, s\<lparr>LastUnique := k\<rparr>)))"

text \<open>\<^verbatim>\<open>new\<close>: the object gets the next free address.\<close>

definition newValue :: "LValue \<Rightarrow> TState \<Rightarrow> addr \<times> TState" where
  "newValue v s =
     (NextAddr s, s\<lparr>Heap := (Heap s)(NextAddr s \<mapsto> v), NextAddr := Suc (NextAddr s)\<rparr>)"

text \<open>\<^verbatim>\<open>new GlobalVariable(M, Ty, isConstant, Linkage, Initializer, Name, ..., AddrSpace)\<close>:
  the variable has pointer type, is named through the symbol table and is linked at
  the end of the module's globals.\<close>

definition GlobalVariable_new ::
  "LType \<Rightarrow> LinkageTypes \<Rightarrow> addr option \<Rightarrow> string \<Rightarrow> nat \<Rightarrow> TState \<Rightarrow> addr \<times> TState" where
  "GlobalVariable_new Ty L Initializer n AddrSpace s =
     (let (nm, s1) = createValueName n s;
          (a, s2) = newValue \<lparr>VKind = GlobalVariableK, VName = nm,
                               VType = PointerTy Ty AddrSpace,
                               Operands = (case Initializer of None \<Rightarrow> [] | Some i \<Rightarrow> [Some i]),
                               Parent = None, Linkage = L, CallConv = CallingConv_C,
                               Attrs = (\<lambda>_. {})\<rparr> s1
      in (a, s2\<lparr>ModGlobals := ModGlobals s2 @ [a]\<rparr>))"

text \<open>\<^verbatim>\<open>Function::Create(FT, Linkage, Name, M)\<close>: default calling convention, no
  attributes, one argument object per parameter type, linked at the end of the
  module's functions.\<close>

fun newArguments :: "addr \<Rightarrow> LType list \<Rightarrow> TState \<Rightarrow> addr list \<times> TState" where
  "newArguments F [] s = ([], s)"
| "newArguments F (T # Ts) s =
     (let (a, s1) = newValue \<lparr>VKind = ArgumentK, VName = [], VType = T, Operands = [],
                               Parent = Some F, Linkage = ExternalLinkage,
                               CallConv = CallingConv_C, Attrs = (\<lambda>_. {})\<rparr> s;
          (as, s2) = newArguments F Ts s1
      in (a # as, s2))"

definition getParamTypes :: "LType \<Rightarrow> LType list" where
  "getParamTypes FT = (case FT of FunctionTy _ Ps _ \<Rightarrow> Ps | _ \<Rightarrow> [])"

definition Function_Create ::
  "LType \<Rightarrow> LinkageTypes \<Rightarrow> string \<Rightarrow> TState \<Rightarrow> addr \<times> TState" where
  "Function_Create FT L n s =
     (let (nm, s1) = createValueName n s;
          (a, s2) = newValue \<lparr>VKind = FunctionK, VName = nm, VType = PointerTy FT 0,
                               Operands = [], Parent = None, Linkage = L,
                               CallConv = CallingConv_C, Attrs = (\<lambda>_. {})\<rparr> s1;
          (as, s3) = newArguments a (getParamTypes FT) s2
      in (a, s3\<lparr>ModFunctions := ModFunctions s3 @ [a], FuncArgs := (FuncArgs s3)(a := as)\<rparr>))"

text \<open>\<^verbatim>\<open>Module::getFunction(Name)\<close>: the function of the module with that name, or null.\<close>

definition getFunction :: "TState \<Rightarrow> string \<Rightarrow> addr option" where
  "getFunction s n = find (\<lambda>a. getName s a = n) (ModFunctions s)"

text \<open>\<^verbatim>\<open>Function::getFunctionType\<close>, \<^verbatim>\<open>Function::isIntrinsic\<close> (in this LLVM the test is
  \<^verbatim>\<open>getName().startswith("llvm.")\<close>), \<^verbatim>\<open>setCallingConv\<close>, \<^verbatim>\<open>addFnAttr\<close>,
  \<^verbatim>\<open>addAttribute\<close>.\<close>

definition getFunctionType :: "TState \<Rightarrow> addr \<Rightarrow> LType option" where
  "getFunctionType s f =
     (case Heap s f of
        Some v \<Rightarrow> (case VType v of PointerTy FT _ \<Rightarrow> Some FT | _ \<Rightarrow> None)
      | None \<Rightarrow> None)"

definition isIntrinsic :: "TState \<Rightarrow> addr \<Rightarrow> bool" where
  "isIntrinsic s f = startswith (getName s f) ''llvm.''"

definition setCallingConv :: "addr \<Rightarrow> CallingConvID \<Rightarrow> TState \<Rightarrow> TState" where
  "setCallingConv a cc s =
     (case Heap s a of
        None \<Rightarrow> s
      | Some v \<Rightarrow> s\<lparr>Heap := (Heap s)(a \<mapsto> v\<lparr>CallConv := cc\<rparr>)\<rparr>)"

definition addAttribute :: "addr \<Rightarrow> AttrIndex \<Rightarrow> AttrKind \<Rightarrow> TState \<Rightarrow> TState" where
  "addAttribute a i k s =
     (case Heap s a of
        None \<Rightarrow> s
      | Some v \<Rightarrow> s\<lparr>Heap := (Heap s)(a \<mapsto> v\<lparr>Attrs := (Attrs v)(i := insert k (Attrs v i))\<rparr>)\<rparr>)"

definition addFnAttr :: "addr \<Rightarrow> AttrKind \<Rightarrow> TState \<Rightarrow> TState" where
  "addFnAttr a k s = addAttribute a FunctionIndex k s"

definition setAttributes :: "addr \<Rightarrow> (AttrIndex \<Rightarrow> AttrKind set) \<Rightarrow> TState \<Rightarrow> TState" where
  "setAttributes a as s =
     (case Heap s a of
        None \<Rightarrow> s
      | Some v \<Rightarrow> s\<lparr>Heap := (Heap s)(a \<mapsto> v\<lparr>Attrs := as\<rparr>)\<rparr>)"

definition setName :: "addr \<Rightarrow> string \<Rightarrow> TState \<Rightarrow> TState" where
  "setName a n s =
     (case Heap s a of
        None \<Rightarrow> s
      | Some v \<Rightarrow> s\<lparr>Heap := (Heap s)(a \<mapsto> v\<lparr>VName := n\<rparr>)\<rparr>)"

definition getCallingConv :: "TState \<Rightarrow> addr \<Rightarrow> CallingConvID" where
  "getCallingConv s a = (case Heap s a of None \<Rightarrow> CallingConv_C | Some v \<Rightarrow> CallConv v)"

definition getAttributes :: "TState \<Rightarrow> addr \<Rightarrow> AttrIndex \<Rightarrow> AttrKind set" where
  "getAttributes s a = (case Heap s a of None \<Rightarrow> (\<lambda>_. {}) | Some v \<Rightarrow> Attrs v)"

definition getType :: "TState \<Rightarrow> addr \<Rightarrow> LType option" where
  "getType s a = map_option VType (Heap s a)"

text \<open>An instruction created with a basic block is appended to the block; created
  with a null block it is linked nowhere.\<close>

definition newInstruction :: "LValue \<Rightarrow> addr option \<Rightarrow> TState \<Rightarrow> addr \<times> TState" where
  "newInstruction v BB s =
     (let (a, s1) = newValue (v\<lparr>Parent := BB\<rparr>) s
      in case BB of
           None \<Rightarrow> (a, s1)
         | Some bb \<Rightarrow> (a, s1\<lparr>BlockInsts := (BlockInsts s1)(bb := BlockInsts s1 bb @ [a])\<rparr>))"

text \<open>\<^verbatim>\<open>new LoadInst(Ptr, Name, BB)\<close>: the loaded type is the pointee of the pointer's
  type.\<close>

definition LoadInst_new :: "addr \<Rightarrow> string \<Rightarrow> addr option \<Rightarrow> TState \<Rightarrow> error + (addr \<times> TState)" where
  "LoadInst_new Ptr n BB s =
     (case getType s Ptr of
        Some (PointerTy T _) \<Rightarrow>
          Inr (newInstruction \<lparr>VKind = LoadInstK, VName = n, VType = T,
                                Operands = [Some Ptr], Parent = None,
                                Linkage = ExternalLinkage, CallConv = CallingConv_C,
                                Attrs = (\<lambda>_. {})\<rparr> BB s)
      | _ \<Rightarrow> Inl (AssertionFailed ''Ptr must have pointer type.''))"

text \<open>\<^verbatim>\<open>CallInst::Create(Func, Args, Name, BB)\<close>: the call has the return type of the
  callee's function type; its operands are the arguments followed by the callee.\<close>

definition CallInst_Create ::
  "addr \<Rightarrow> addr option list \<Rightarrow> string \<Rightarrow> addr option \<Rightarrow> TState \<Rightarrow> error + (addr \<times> TState)" where
  "CallInst_Create Fn Args n BB s =
     (case getFunctionType s Fn of
        Some (FunctionTy RetTy _ _) \<Rightarrow>
          Inr (newInstruction \<lparr>VKind = CallInstK, VName = n, VType = RetTy,
                                Operands = Args @ [Some Fn], Parent = None,
                                Linkage = ExternalLinkage, CallConv = CallingConv_C,
                                Attrs = (\<lambda>_. {})\<rparr> BB s)
      | _ \<Rightarrow> Inl NullPointerDereference)"

text \<open>\<^verbatim>\<open>CallInst::getCalledFunction\<close>: the last operand when it is a function, else null;
  \<^verbatim>\<open>getArgOperand\<close>s: the operands before it.\<close>

definition getCalledFunction :: "TState \<Rightarrow> addr \<Rightarrow> addr option" where
  "getCalledFunction s c =
     (case Heap s c of
        None \<Rightarrow> None
      | Some v \<Rightarrow>
          (if Operands v = [] then None
           else (case last (Operands v) of
                   None \<Rightarrow> None
                 | Some f \<Rightarrow>
                     (case Heap s f of
                        None \<Rightarrow> None
                      | Some fv \<Rightarrow> if VKind fv = FunctionK then Some f else None))))"

definition getArgOperands :: "TState \<Rightarrow> addr \<Rightarrow> addr option list" where
  "getArgOperands s c = (case Heap s c of None \<Rightarrow> [] | Some v \<Rightarrow> butlast (Operands v))"

text \<open>\<^verbatim>\<open>CastInst::Create(Op, S, Ty, Name, BB)\<close>.\<close>

definition CastInst_Create ::
  "CastOps \<Rightarrow> addr \<Rightarrow> LType \<Rightarrow> string \<Rightarrow> addr option \<Rightarrow> TState \<Rightarrow> addr \<times> TState" where
  "CastInst_Create Op S Ty n BB s =
     newInstruction \<lparr>VKind = CastInstK Op, VName = n, VType = Ty,
                      Operands = [Some S], Parent = None,
                      Linkage = ExternalLinkage, CallConv = CallingConv_C,
                      Attrs = (\<lambda>_. {})\<rparr> BB s"

text \<open>\<^verbatim>\<open>ConstantInt::get(Ty, V)\<close>: constants are uniqued by LLVM; the model allocates one
  object per request, which no property below observes.\<close>

definition ConstantInt_get :: "LType \<Rightarrow> int \<Rightarrow> TState \<Rightarrow> addr \<times> TState" where
  "ConstantInt_get Ty n s =
     newValue \<lparr>VKind = ConstantIntK n, VName = [], VType = Ty, Operands = [],
                Parent = None, Linkage = ExternalLinkage, CallConv = CallingConv_C,
                Attrs = (\<lambda>_. {})\<rparr> s"

text \<open>\<^verbatim>\<open>dyn_cast<ConstantInt>\<close> of a possibly null result.\<close>

definition dyn_cast_ConstantInt :: "TState \<Rightarrow> addr option \<Rightarrow> addr option" where
  "dyn_cast_ConstantInt s p =
     (case p of
        None \<Rightarrow> None
      | Some a \<Rightarrow>
          (case Heap s a of
             None \<Rightarrow> None
           | Some v \<Rightarrow> (case VKind v of ConstantIntK _ \<Rightarrow> Some a | _ \<Rightarrow> None)))"

text \<open>\<^verbatim>\<open>BasicBlock::getParent\<close>: the function of a block.\<close>

definition getParent :: "TState \<Rightarrow> addr \<Rightarrow> addr option" where
  "getParent s a = (case Heap s a of None \<Rightarrow> None | Some v \<Rightarrow> Parent v)"

section \<open>The input: a parsed SPIR-V module\<close>

text \<open>
  The classes of the input (\<^verbatim>\<open>SPRVType\<close>, \<^verbatim>\<open>SPRVValue\<close>, \<^verbatim>\<open>SPRVModule\<close>, their
  enumerations) are declared outside the translated file.  They are data here: a type
  is a term, a value is a record of what the reader asks of it.  Enumerators the reader
  names are constructors; \<open>_Other\<close> stands for every enumerator it does not name.
\<close>

datatype SPRVStorageClassKind =
    SPRVSC_Function
  | SPRVSC_Private
  | SPRVSC_CrossWorkgroup
  | SPRVSC_UniformConstant
  | SPRVSC_Workgroup
  | SPRVSC_Generic
  | SPRVSC_Other nat

datatype SPRVAddressingModelKind =
    SPRVAM_Logical
  | SPRVAM_Physical32
  | SPRVAM_Physical64
  | SPRVAM_Other nat

datatype SPRVAccessQualifierKind =
    SPRVAC_ReadOnly
  | SPRVAC_WriteOnly
  | SPRVAC_ReadWrite
  | SPRVAC_Other nat

datatype SPRVFPRoundingModeKind = SPRVFRM_RTE | SPRVFRM_RTZ | SPRVFRM_RTP | SPRVFRM_RTN

datatype SPRVExtInstSetKind =
    SPRVBIS_OpenCL12
  | SPRVBIS_OpenCL20
  | SPRVBIS_OpenCL21
  | SPRVBIS_Other nat

datatype SPRVFunctionControlMaskKind =
    SPRVFCM_Inline | SPRVFCM_DontInline | SPRVFCM_Pure | SPRVFCM_Const

datatype SPRVFuncParamAttrKind =
    SPRVFPA_Zext | SPRVFPA_Sext | SPRVFPA_ByVal | SPRVFPA_Sret | SPRVFPA_NoAlias
  | SPRVFPA_NoCapture | SPRVFPA_Const | SPRVFPA_Other nat

datatype SPRVOpCode =
    SPRVOC_OpCopyMemorySized
  | SPRVOC_OpExtInst
  | SPRVOC_OpControlBarrier
  | SPRVOC_OpMemoryBarrier
  | SPRVOC_OpBuildNDRange
  | SPRVOC_OpLessOrGreater
  | SPRVOC_OpUnordered
  | SPRVOC_OpConvertFToU
  | SPRVOC_OpConvertFToS
  | SPRVOC_OpConvertSToF
  | SPRVOC_OpConvertUToF
  | SPRVOC_OpUConvert
  | SPRVOC_OpSConvert
  | SPRVOC_OpFConvert
  | SPRVOC_OpSatConvertSToU
  | SPRVOC_OpSatConvertUToS
  | SPRVOC_Other nat

datatype SPRVType =
    SPRVTypeVoid
  | SPRVTypeBool
  | SPRVTypeInt nat bool
  | SPRVTypeFloat nat
  | SPRVTypeArray SPRVType nat
  | SPRVTypePointer SPRVType SPRVStorageClassKind
  | SPRVTypeVector SPRVType nat
  | SPRVTypeOpaque string
  | SPRVTypeFunction SPRVType "SPRVType list"
  | SPRVTypeSampler nat SPRVAccessQualifierKind bool bool
  | SPRVTypeStruct "SPRVType list" string bool
  | SPRVTypePipe SPRVType
  | SPRVTypeOpaqueGeneric nat
  | SPRVTypeUnknown nat

text \<open>The arguments of \<open>SPRVTypeInt\<close> are the bit width and the signedness, those of
  \<open>SPRVTypeSampler\<close> the image descriptor, the access qualifier and the answers of
  \<^verbatim>\<open>IsOCLImage()\<close> and \<^verbatim>\<open>IsOCLSampler()\<close>, that of \<open>SPRVTypeOpaqueGeneric\<close> an opcode for
  which \<^verbatim>\<open>isOpaqueGenericTypeOpCode\<close> holds.\<close>

record SPRVValue =
  BId :: sid
  BOpCode :: SPRVOpCode
  BName :: string
  BType :: "SPRVType option"

text \<open>An instruction: its operands, the answers of \<^verbatim>\<open>isAtomic()\<close>,
  \<^verbatim>\<open>hasFPRoundingMode(&Rounding)\<close> and \<^verbatim>\<open>isSaturatedConversion()\<close>, its
  \<^verbatim>\<open>SPRVMemoryAccess\<close> part, and the memory semantics of a barrier.\<close>

record SPRVInstruction = SPRVValue +
  BOperands :: "SPRVValue list"
  BIsAtomic :: bool
  BFPRoundingMode :: "SPRVFPRoundingModeKind option"
  BSaturatedConversion :: bool
  BAlignment :: nat
  BVolatile :: bool
  BMemSemantic :: nat

text \<open>\<^verbatim>\<open>SPRVCopyMemorySized\<close>: target, source and size.  \<^verbatim>\<open>SPRVExtInst\<close>: the number of
  the instruction in its set (\<^verbatim>\<open>getEntryPoint()\<close>), the id of the set, and the argument
  words (ids of values, or literals).\<close>

record SPRVCopyMemorySized = SPRVInstruction +
  BTarget :: SPRVValue
  BSource :: SPRVValue
  BSize :: SPRVValue

record SPRVExtInst = SPRVInstruction +
  BEntryPoint :: nat
  BBuiltinSetId :: nat
  BExtArguments :: "nat list"

record SPRVFunctionParameter = SPRVValue +
  BParamAttrs :: "SPRVFuncParamAttrKind list"

text \<open>A function: its linkage kind (a key of the linkage table), its type, its control
  mask as the set of mask bits that are set, its parameters, the attributes of its
  return value, and its basic blocks, each a label and the instructions in order.\<close>

record SPRVFunction = SPRVValue +
  BLinkageType :: nat
  BFunctionType :: SPRVType
  BFuncCtlMask :: "SPRVFunctionControlMaskKind set"
  BArguments :: "SPRVFunctionParameter list"
  BReturnValueAttrs :: "SPRVFuncParamAttrKind list"
  BBasicBlocks :: "(SPRVValue \<times> SPRVValue list) list"

text \<open>The input module: the addressing model, the kernel entry points, the
  instruction set each imported set id stands for (\<^verbatim>\<open>getBuiltinSet\<close>), the values by id,
  and the error log (\<^verbatim>\<open>SPRVErrorLog\<close>): the last error code and its message.\<close>

datatype SPRVErrorCode = SPRVEC_Success | SPRVEC_InvalidAddressingModel | SPRVEC_Other nat

record SPRVModule =
  BAddressingModel :: SPRVAddressingModelKind
  BKernelEntryPoints :: "sid set"
  BBuiltinSets :: "nat \<Rightarrow> SPRVExtInstSetKind"
  BValues :: "nat \<rightharpoonup> SPRVValue"
  BErrorCode :: SPRVErrorCode
  BErrorMsg :: string


text \<open>The queries of \<^verbatim>\<open>SPRVType\<close> the reader makes.  A getter on a type of another
  class is a failed assertion of the input library.\<close>

definition isTypeBool :: "SPRVType \<Rightarrow> bool" where
  "isTypeBool T = (T = SPRVTypeBool)"

definition isTypeVectorBool :: "SPRVType \<Rightarrow> bool" where
  "isTypeVectorBool T = (case T of SPRVTypeVector E _ \<Rightarrow> E = SPRVTypeBool | _ \<Rightarrow> False)"

definition isTypeVectorOrScalarBool :: "SPRVType \<Rightarrow> bool" where
  "isTypeVectorOrScalarBool T = (isTypeBool T \<or> isTypeVectorBool T)"

definition getVectorComponentCount :: "SPRVType \<Rightarrow> error + nat" where
  "getVectorComponentCount T =
     (case T of SPRVTypeVector _ n \<Rightarrow> Inr n | _ \<Rightarrow> Inl (AssertionFailed ''Not vector type''))"

definition getPointerStorageClass :: "SPRVType \<Rightarrow> error + SPRVStorageClassKind" where
  "getPointerStorageClass T =
     (case T of SPRVTypePointer _ sc \<Rightarrow> Inr sc | _ \<Rightarrow> Inl (AssertionFailed ''Not pointer type''))"

definition getBitWidth :: "SPRVType \<Rightarrow> error + nat" where
  "getBitWidth T =
     (case T of
        SPRVTypeInt w _ \<Rightarrow> Inr w
      | SPRVTypeFloat w \<Rightarrow> Inr w
      | SPRVTypeBool \<Rightarrow> Inr 1
      | _ \<Rightarrow> Inl (AssertionFailed ''Not an integer or float type''))"

text \<open>\<^verbatim>\<open>SPRVValue::getType\<close> asserts that the value has a type.\<close>

definition getBType :: "'a SPRVValue_scheme \<Rightarrow> error + SPRVType" where
  "getBType BV = (case BType BV of None \<Rightarrow> Inl (AssertionFailed ''value has no type'') | Some T \<Rightarrow> Inr T)"

section \<open>What the translated file takes from outside\<close>

text \<open>
  Tables, predicates and helpers that \<^verbatim>\<open>SPRVReader.cpp\<close> uses and that are defined in
  files outside the sources at hand, and the name mangler, are parameters: a record
  \<open>Env\<close> that every function below takes.  A table's \<^verbatim>\<open>rmap\<close> is a partial function (a
  missing key fails the assertion of \<^verbatim>\<open>SPIRVMap::rmap\<close>, \<^verbatim>\<open>SPIRVUtil.h\<close> lines 76-81).

  \<open>transOperand\<close> stands for the translation of an operand, \<^verbatim>\<open>transValue(BV, F, BB,
  CreatePlaceHolder)\<close>, which may return null and may change the state.  The properties
  below hold for every such function; the ones that read a function created before
  the operands are translated assume that translating an operand leaves the functions
  that exist alone (\<open>operandsKeepFunctions\<close> below).  \<open>transCmpInst\<close>,
  \<open>transShiftLogicalBitwiseInst\<close> and \<open>transConvertInst\<close> stand for the three lowerings to
  a direct LLVM instruction (lines 658-739), which no property below looks into: only
  the choice between them and the builtin call matters.  \<open>opCodeNumber\<close> is the number of
  an opcode, \<open>castFPRoundingMode\<close> the rounding mode a word is cast to,
  \<open>OCLExtInstMap\<close> and \<open>OCLPrintf\<close> the tables \<^verbatim>\<open>OCL12Map\<close>, \<^verbatim>\<open>OCL20Map\<close>, \<^verbatim>\<open>OCL21Map\<close>
  and the numbers \<^verbatim>\<open>OCL12_Printf\<close>, \<^verbatim>\<open>OCL20_Printf\<close>, \<^verbatim>\<open>OCL21_Printf\<close>.
\<close>

record Env =
  mangle :: "SPRVExtInstSetKind \<Rightarrow> string \<Rightarrow> LType list \<Rightarrow> string"
  decorateSPRVFunction :: "string \<Rightarrow> string"
  isCmpOpCode :: "SPRVOpCode \<Rightarrow> bool"
  isCvtOpCode :: "SPRVOpCode \<Rightarrow> bool"
  isCvtFromUnsignedOpCode :: "SPRVOpCode \<Rightarrow> bool"
  isCvtToUnsignedOpCode :: "SPRVOpCode \<Rightarrow> bool"
  isBinaryShiftLogicalBitwiseOpCode :: "SPRVOpCode \<Rightarrow> bool"
  opCodeNumber :: "SPRVOpCode \<Rightarrow> nat"
  SPIRSPRVBuiltinInstMap_rmap :: "SPRVOpCode \<Rightarrow> string option"
  SPIRSPRVFPRoundingModeMap_rmap :: "SPRVFPRoundingModeKind \<Rightarrow> string option"
  SPIRSPRVLinkageTypeMap_rmap :: "nat \<Rightarrow> LinkageTypes option"
  SPIRSPRVAddrSpaceMap_rmap :: "SPRVStorageClassKind \<Rightarrow> nat option"
  SPIRSPRVImageSamplerTypeMap_rmap :: "nat \<Rightarrow> string option"
  BuiltinOpaqueGenericTypeOpCodeMap_rmap :: "nat \<Rightarrow> string option"
  mapSPRVTypeToOpenCLType :: "SPRVType \<Rightarrow> bool \<Rightarrow> string"
  OCLExtInstMap :: "SPRVExtInstSetKind \<Rightarrow> nat \<Rightarrow> string option"
  OCLPrintf :: "SPRVExtInstSetKind \<Rightarrow> nat"
  SPIRSPRVMemFenceFlagMap :: "(nat \<times> nat) list"
  castFPRoundingMode :: "nat \<Rightarrow> SPRVFPRoundingModeKind option"
  transOperand ::
    "SPRVValue \<Rightarrow> addr option \<Rightarrow> addr option \<Rightarrow> bool \<Rightarrow> TState \<Rightarrow> error + (addr option \<times> TState)"
  transCmpInst ::
    "SPRVInstruction \<Rightarrow> addr option \<Rightarrow> addr option \<Rightarrow> TState \<Rightarrow> error + (addr \<times> TState)"
  transShiftLogicalBitwiseInst ::
    "SPRVInstruction \<Rightarrow> addr option \<Rightarrow> addr option \<Rightarrow> TState \<Rightarrow> error + (addr \<times> TState)"
  transConvertInst ::
    "SPRVInstruction \<Rightarrow> addr option \<Rightarrow> addr option \<Rightarrow> TState \<Rightarrow> error + (addr \<times> TState)"

definition rmapOrAssert :: "'a option \<Rightarrow> error + 'a" where
  "rmapOrAssert r = (case r of None \<Rightarrow> Inl (AssertionFailed ''Invalid key'') | Some x \<Rightarrow> Inr x)"

text \<open>Address spaces (\<^verbatim>\<open>SPIRVInternal.h\<close> lines 184-191).\<close>

definition SPIRAS_Private :: nat where "SPIRAS_Private = 0"
definition SPIRAS_Global :: nat where "SPIRAS_Global = 1"

text \<open>The access qualifier names (\<^verbatim>\<open>SPIRVInternal.h\<close> lines 215-221).\<close>

definition SPIRSPRVAccessQualifierMap_rmap :: "SPRVAccessQualifierKind \<Rightarrow> string option" where
  "SPIRSPRVAccessQualifierMap_rmap q =
     (case q of
        SPRVAC_ReadOnly \<Rightarrow> Some ''read_only''
      | SPRVAC_WriteOnly \<Rightarrow> Some ''write_only''
      | SPRVAC_ReadWrite \<Rightarrow> Some ''read_write''
      | SPRVAC_Other _ \<Rightarrow> None)"

text \<open>Modelled from the spec: the macro \<^verbatim>\<open>SPIR_TYPE_NAME_DELIMITER\<close> is not in the sources;
  the spec's table of types names an image type
  \<^verbatim>\<open><image-type-name>__<access-qualifier>\<close>.\<close>

definition SPIR_TYPE_NAME_DELIMITER :: string where
  "SPIR_TYPE_NAME_DELIMITER = ''__''"

text \<open>Modelled from the spec: \<^verbatim>\<open>getOrCreateOpaquePtrType(M, Name)\<close> is declared in
  \<^verbatim>\<open>SPIRVInternal.h\<close> (line 536, default address space \<^verbatim>\<open>SPIRAS_Global\<close>) and defined
  outside the sources; the spec's table gives a pointer to the opaque struct of that
  name.\<close>

definition getOrCreateOpaquePtrType :: "string \<Rightarrow> LType" where
  "getOrCreateOpaquePtrType n = PointerTy (OpaqueStructTy n) SPIRAS_Global"

section \<open>Type lowering\<close>

text \<open>\<^verbatim>\<open>SPRVToLLVM::transFPType\<close> (lines 431-441).\<close>

definition transFPType :: "nat \<Rightarrow> error + LType" where
  "transFPType w =
     (if w = 16 then Inr HalfTy
      else if w = 32 then Inr FloatTy
      else if w = 64 then Inr DoubleTy
      else Inl (AssertionFailed ''Invalid type''))"

text \<open>\<^verbatim>\<open>SPRVToLLVM::transOCLImageTypeName\<close> (lines 443-448).\<close>

definition transOCLImageTypeName :: "Env \<Rightarrow> nat \<Rightarrow> SPRVAccessQualifierKind \<Rightarrow> error + string" where
  "transOCLImageTypeName env Descriptor AccessQualifier =
     (case rmapOrAssert (SPIRSPRVImageSamplerTypeMap_rmap env Descriptor) of
        Inl e \<Rightarrow> Inl e
      | Inr n \<Rightarrow>
          (case rmapOrAssert (SPIRSPRVAccessQualifierMap_rmap AccessQualifier) of
             Inl e \<Rightarrow> Inl e
           | Inr q \<Rightarrow> Inr (n @ SPIR_TYPE_NAME_DELIMITER @ q)))"

text \<open>
  \<^verbatim>\<open>SPRVToLLVM::transType\<close> (lines 450-523) and \<^verbatim>\<open>transTypeVector\<close> (lines 596-602).
  The source memoises the result per input type in \<open>TypeMap\<close>; the table is written by
  this function only, with its own result, so the lowering is the function of the
  input type below.  LLVM types are compared as terms.
\<close>

fun transType :: "Env \<Rightarrow> SPRVType \<Rightarrow> error + LType"
  and transTypeVector :: "Env \<Rightarrow> SPRVType list \<Rightarrow> error + LType list" where
  "transType env SPRVTypeVoid = Inr VoidTy"
| "transType env SPRVTypeBool = Inr (IntegerTy 1)"
| "transType env (SPRVTypeInt w sg) = Inr (IntegerTy w)"
| "transType env (SPRVTypeFloat w) = transFPType w"
| "transType env (SPRVTypeArray E n) =
     (case transType env E of Inl e \<Rightarrow> Inl e | Inr t \<Rightarrow> Inr (ArrayTy t n))"
| "transType env (SPRVTypePointer E sc) =
     (case transType env E of
        Inl e \<Rightarrow> Inl e
      | Inr t \<Rightarrow>
          (case rmapOrAssert (SPIRSPRVAddrSpaceMap_rmap env sc) of
             Inl e \<Rightarrow> Inl e
           | Inr a \<Rightarrow> Inr (PointerTy t a)))"
| "transType env (SPRVTypeVector E n) =
     (case transType env E of Inl e \<Rightarrow> Inl e | Inr t \<Rightarrow> Inr (VectorTy t n))"
| "transType env (SPRVTypeOpaque n) = Inr (OpaqueStructTy n)"
| "transType env (SPRVTypeFunction R Ps) =
     (case transType env R of
        Inl e \<Rightarrow> Inl e
      | Inr RT \<Rightarrow>
          (case transTypeVector env Ps of
             Inl e \<Rightarrow> Inl e
           | Inr PT \<Rightarrow> Inr (FunctionTy RT PT False)))"
| "transType env (SPRVTypeSampler d q img smp) =
     (if img then
        (case transOCLImageTypeName env d q of
           Inl e \<Rightarrow> Inl e
         | Inr n \<Rightarrow> Inr (getOrCreateOpaquePtrType n))
      else if smp then Inr (IntegerTy 32)
      else Inl (AssertionFailed ''Unsupported sampler type''))"
| "transType env (SPRVTypeStruct Ms n packed) =
     (case transTypeVector env Ms of
        Inl e \<Rightarrow> Inl e
      | Inr MT \<Rightarrow> Inr (StructTy n MT packed))"
| "transType env (SPRVTypePipe E) =
     (case transType env E of
        Inl e \<Rightarrow> Inl e
      | Inr t \<Rightarrow> Inr (PointerTy (StructTy ''opencl.pipe_t'' [t] False) SPIRAS_Global))"
| "transType env (SPRVTypeOpaqueGeneric oc) =
     (case rmapOrAssert (BuiltinOpaqueGenericTypeOpCodeMap_rmap env oc) of
        Inl e \<Rightarrow> Inl e
      | Inr n \<Rightarrow> Inr (PointerTy (OpaqueStructTy n) SPIRAS_Private))"
| "transType env (SPRVTypeUnknown oc) = Inl (AssertionFailed ''Not implemented'')"
| "transTypeVector env [] = Inr []"
| "transTypeVector env (T # Ts) =
     (case transType env T of
        Inl e \<Rightarrow> Inl e
      | Inr t \<Rightarrow>
          (case transTypeVector env Ts of
             Inl e \<Rightarrow> Inl e
           | Inr ts \<Rightarrow> Inr (t # ts)))"

section \<open>Identity maps and the placeholder protocol\<close>

text \<open>Line 81.\<close>

definition kPlaceholderPrefix :: string where
  "kPlaceholderPrefix = ''placeholder.''"

text \<open>
  \<^verbatim>\<open>SPRVToLLVM::mapValue\<close> (lines 243-262).  The source reads \<^verbatim>\<open>LD->getPointerOperand()\<close>
  before its assertion looks at \<^verbatim>\<open>LD\<close>, so an entry that is no load is a null
  dereference; an entry that is a load of something else fails the assertion.
\<close>

definition mapValue :: "sid \<Rightarrow> addr \<Rightarrow> TState \<Rightarrow> error + (addr \<times> TState)" where
  "mapValue BV V s =
     (case ValueMap s BV of
        None \<Rightarrow> Inr (V, s\<lparr>ValueMap := (ValueMap s)(BV \<mapsto> V)\<rparr>)
      | Some Loc \<Rightarrow>
          if Loc = V then Inr (V, s)
          else
            (case dyn_cast_LoadInst s Loc of
               None \<Rightarrow> Inl NullPointerDereference
             | Some LD \<Rightarrow>
                 (case dyn_cast_GlobalVariable s (getPointerOperand s LD) of
                    None \<Rightarrow> Inl (AssertionFailed ''A value is translated twice'')
                  | Some Placeholder \<Rightarrow>
                      if \<not> startswith (getName s Placeholder) kPlaceholderPrefix
                      then Inl (AssertionFailed ''A value is translated twice'')
                      else
                        (let s1 = replaceAllUsesWith LD V s;
                             s2 = dropAllReferences LD s1
                         in case removeFromParent_Inst LD s2 of
                              Inl e \<Rightarrow> Inl e
                            | Inr s3 \<Rightarrow>
                                (let s4 = dropAllReferences Placeholder s3
                                 in case removeFromParent_GV Placeholder s4 of
                                      Inl e \<Rightarrow> Inl e
                                    | Inr s5 \<Rightarrow>
                                        Inr (V, s5\<lparr>ValueMap := (ValueMap s5)(BV \<mapsto> V)\<rparr>))))))"


definition getTranslatedValue :: "TState \<Rightarrow> sid \<Rightarrow> addr option" where
  "getTranslatedValue s BV = ValueMap s BV"

text \<open>
  What the assertion of \<open>mapValue\<close> asks of the existing entry: it is a load whose
  pointer operand is a global variable named \<open>placeholder.\<dots>\<close>.  The result is that
  global variable.
\<close>

definition placeholderOf :: "TState \<Rightarrow> addr \<Rightarrow> addr option" where
  "placeholderOf s a =
     (case dyn_cast_LoadInst s a of
        None \<Rightarrow> None
      | Some LD \<Rightarrow>
          (case dyn_cast_GlobalVariable s (getPointerOperand s LD) of
             None \<Rightarrow> None
           | Some GV \<Rightarrow>
               if startswith (getName s GV) kPlaceholderPrefix then Some GV else None))"

text \<open>The load is linked into a basic block and the global into the module.\<close>

definition attached :: "TState \<Rightarrow> addr \<Rightarrow> addr \<Rightarrow> bool" where
  "attached s LD GV =
     ((case Heap s LD of None \<Rightarrow> False | Some v \<Rightarrow> Parent v \<noteq> None)
      \<and> GV \<in> set (ModGlobals s))"

text \<open>
  The creation of a placeholder in \<^verbatim>\<open>transValueWithoutDecoration\<close> (lines 980-992): a
  private global variable of the lowered type named \<open>placeholder.\<close> followed by the
  value's name, a load of it at the end of the current block, both registered.
\<close>

definition createPlaceholder ::
  "Env \<Rightarrow> 'a SPRVValue_scheme \<Rightarrow> addr option \<Rightarrow> TState \<Rightarrow> error + (addr \<times> TState)" where
  "createPlaceholder env BV BB s =
     (case getBType BV of
        Inl e \<Rightarrow> Inl e
      | Inr T \<Rightarrow>
          (case transType env T of
             Inl e \<Rightarrow> Inl e
           | Inr Ty \<Rightarrow>
               (let (GV, s1) = GlobalVariable_new Ty PrivateLinkage None
                                 (kPlaceholderPrefix @ BName BV) 0 s
                in case LoadInst_new GV (BName BV) BB s1 of
                     Inl e \<Rightarrow> Inl e
                   | Inr (LD, s2) \<Rightarrow>
                       mapValue (BId BV) LD
                         (s2\<lparr>PlaceholderMap := (PlaceholderMap s2)(BId BV \<mapsto> LD)\<rparr>))))"

section \<open>Functions\<close>

text \<open>The tables of \<^verbatim>\<open>SPIRVInternal.h\<close>, lines 223-243: function control masks and
  parameter attributes.\<close>

definition SPIRSPRVFuncCtlMaskMap :: "(AttrKind \<times> SPRVFunctionControlMaskKind) list" where
  "SPIRSPRVFuncCtlMaskMap =
     [(ReadNone, SPRVFCM_Pure), (ReadOnly, SPRVFCM_Const),
      (AlwaysInline, SPRVFCM_Inline), (NoInline, SPRVFCM_DontInline)]"


text \<open>Line 275.\<close>

definition isFuncNoUnwind :: bool where
  "isFuncNoUnwind = True"

text \<open>\<^verbatim>\<open>SPRVToLLVM::foreachFuncCtlMask\<close> (lines 1298-1308) with the function of lines
  1328-1330: every attribute whose mask bit is set is added to the function.\<close>

definition foreachFuncCtlMask_addFnAttr ::
  "SPRVFunctionControlMaskKind set \<Rightarrow> addr \<Rightarrow> TState \<Rightarrow> TState" where
  "foreachFuncCtlMask_addFnAttr FCM F s =
     fold (\<lambda>(Attr, Mask) s. if Mask \<in> FCM then addFnAttr F Attr s else s)
       SPIRSPRVFuncCtlMaskMap s"








text \<open>
  \<^verbatim>\<open>SPRVToLLVM::transFunction\<close> (lines 1310-1368), in three parts: the calling
  convention and the function attributes (lines 1323-1331), the arguments, return
  attributes and basic blocks (lines 1333-1367), and the function itself with the
  lookup, the linkage, the type and the creation (lines 1312-1322).  A null function
  type reaches \<^verbatim>\<open>Function::Create\<close>, which dereferences it.
\<close>

definition transFunctionAttrs :: "bool \<Rightarrow> SPRVFunction \<Rightarrow> addr \<Rightarrow> TState \<Rightarrow> TState" where
  "transFunctionAttrs IsKernel BF F s =
     (if \<not> isIntrinsic s F
      then (let s1 = setCallingConv F (if IsKernel then SPIR_KERNEL else SPIR_FUNC) s;
                s2 = (if isFuncNoUnwind then addFnAttr F NoUnwind s1 else s1)
            in foreachFuncCtlMask_addFnAttr (BFuncCtlMask BF) F s2)
      else s)"



text \<open>
  What the properties below ask of the translation of operands and instructions: it
  leaves the header of every function that exists as it is, that is its name, type,
  linkage, calling convention and attributes.  (In the source a function is written to
  where it is created: by \<open>transFunction\<close> for the function it translates, by the
  builtin emitters for the declaration they create.)
\<close>

definition fnHeader ::
  "LValue \<Rightarrow> ValueKind \<times> string \<times> LType \<times> LinkageTypes \<times> CallingConvID \<times> (AttrIndex \<Rightarrow> AttrKind set)" where
  "fnHeader v = (VKind v, VName v, VType v, Linkage v, CallConv v, Attrs v)"

definition operandsKeepFunctions :: "Env \<Rightarrow> bool" where
  "operandsKeepFunctions env =
     (\<forall>BV F BB c s r s' f v.
        transOperand env BV F BB c s = Inr (r, s') \<longrightarrow>
        Heap s f = Some v \<longrightarrow> VKind v = FunctionK \<longrightarrow>
        (\<exists>v'. Heap s' f = Some v' \<and> fnHeader v' = fnHeader v))"

text \<open>The part of a function's header that \<open>transFunction\<close> decides: the name, the
  linkage, the calling convention and the function attributes.\<close>

definition fnCore ::
  "LValue \<Rightarrow> ValueKind \<times> string \<times> LinkageTypes \<times> CallingConvID \<times> AttrKind set" where
  "fnCore v = (VKind v, VName v, Linkage v, CallConv v, Attrs v FunctionIndex)"

definition coreAt ::
  "TState \<Rightarrow> addr \<Rightarrow> string \<times> LinkageTypes \<times> CallingConvID \<times> AttrKind set \<Rightarrow> bool" where
  "coreAt s F c = (\<exists>v. Heap s F = Some v \<and> fnCore v = (FunctionK, c))"

text \<open>
  The allocator's invariant: no object lives at or above the next free address, and
  every function linked into the module is a function object.  The properties of the
  builtin emitters assume that the translation of an operand keeps it
  (\<open>operandsKeepAllocator\<close>), as every creation of an object in this file does.
\<close>

definition wellFormed :: "TState \<Rightarrow> bool" where
  "wellFormed s =
     ((\<forall>a. NextAddr s \<le> a \<longrightarrow> Heap s a = None)
      \<and> (\<forall>f \<in> set (ModFunctions s). \<exists>v. Heap s f = Some v \<and> VKind v = FunctionK))"

definition operandsKeepAllocator :: "Env \<Rightarrow> bool" where
  "operandsKeepAllocator env =
     (\<forall>BV F BB c s r s'.
        transOperand env BV F BB c s = Inr (r, s') \<longrightarrow> wellFormed s \<longrightarrow> wellFormed s')"

text \<open>
  \<open>freshDeclaration s MN FT Fn s'\<close>: the function \<open>Fn\<close> of the state \<open>s'\<close> did not exist in
  \<open>s\<close> and is a declaration of the builtin: named \<open>MN\<close> by the symbol table, of type \<open>FT\<close>,
  external, with calling convention \<open>spir_func\<close> and the one attribute no-unwind.

  \<open>callSiteFromCallee s' Call Fn\<close>: \<open>Call\<close> is a call of the function \<open>Fn\<close> and has the
  calling convention and the attributes of \<open>Fn\<close>, unless \<open>Fn\<close> is an intrinsic, when it has
  the defaults (\<open>setAttrByCalledFunc\<close> returns at line 337).

  \<open>callSiteNoUnwind s' Call Fn\<close>: \<open>Call\<close> is a call of \<open>Fn\<close> with the calling convention
  of \<open>Fn\<close> and the one attribute no-unwind.
\<close>

definition freshDeclaration :: "TState \<Rightarrow> string \<Rightarrow> LType \<Rightarrow> addr \<Rightarrow> TState \<Rightarrow> bool" where
  "freshDeclaration s MN FT Fn s' =
     (Heap s Fn = None \<and>
      (\<exists>fv. Heap s' Fn = Some fv \<and> VKind fv = FunctionK
            \<and> VName fv = fst (createValueName MN s) \<and> VType fv = PointerTy FT 0
            \<and> Linkage fv = ExternalLinkage \<and> CallConv fv = SPIR_FUNC
            \<and> Attrs fv = (\<lambda>_. {})(FunctionIndex := {NoUnwind})))"

definition callSiteFromCallee :: "TState \<Rightarrow> addr \<Rightarrow> addr \<Rightarrow> bool" where
  "callSiteFromCallee s' Call Fn =
     (\<exists>cv fv. Heap s' Call = Some cv \<and> Heap s' Fn = Some fv \<and> VKind cv = CallInstK
             \<and> getCalledFunction s' Call = Some Fn
             \<and> (if startswith (VName fv) ''llvm.''
                 then CallConv cv = CallingConv_C \<and> Attrs cv = (\<lambda>_. {})
                 else CallConv cv = CallConv fv \<and> Attrs cv = Attrs fv))"

definition callSiteNoUnwind :: "TState \<Rightarrow> addr \<Rightarrow> addr \<Rightarrow> bool" where
  "callSiteNoUnwind s' Call Fn =
     (\<exists>cv fv. Heap s' Call = Some cv \<and> Heap s' Fn = Some fv \<and> VKind cv = CallInstK
             \<and> getCalledFunction s' Call = Some Fn
             \<and> CallConv cv = CallConv fv
             \<and> Attrs cv = (\<lambda>_. {})(FunctionIndex := {NoUnwind}))"

section \<open>Builtin calls\<close>

text \<open>\<^verbatim>\<open>transValue\<close> on a vector of values (lines 604-611): in order, with placeholders
  allowed.\<close>

fun transOperands ::
  "Env \<Rightarrow> SPRVValue list \<Rightarrow> addr option \<Rightarrow> addr option \<Rightarrow> TState
     \<Rightarrow> error + (addr option list \<times> TState)" where
  "transOperands env [] F BB s = Inr ([], s)"
| "transOperands env (I # Is) F BB s =
     (case transOperand env I F BB True s of
        Inl e \<Rightarrow> Inl e
      | Inr (v, s1) \<Rightarrow>
          (case transOperands env Is F BB s1 of
             Inl e \<Rightarrow> Inl e
           | Inr (vs, s2) \<Rightarrow> Inr (v # vs, s2)))"

text \<open>\<^verbatim>\<open>SPRVInstruction::getOperandTypes\<close>: the type of every operand.\<close>

fun getTypes :: "SPRVValue list \<Rightarrow> error + SPRVType list" where
  "getTypes [] = Inr []"
| "getTypes (V # Vs) =
     (case getBType V of
        Inl e \<Rightarrow> Inl e
      | Inr T \<Rightarrow> (case getTypes Vs of Inl e \<Rightarrow> Inl e | Inr Ts \<Rightarrow> Inr (T # Ts)))"

text \<open>\<^verbatim>\<open>SPRVToLLVM::setCallingConv\<close> (lines 296-299) and
  \<^verbatim>\<open>SPRVToLLVM::setAttrByCalledFunc\<close> (lines 334-342).\<close>

definition setCallingConv_Call :: "addr \<Rightarrow> TState \<Rightarrow> error + TState" where
  "setCallingConv_Call Call s =
     (case getCalledFunction s Call of
        None \<Rightarrow> Inl NullPointerDereference
      | Some F \<Rightarrow> Inr (setCallingConv Call (getCallingConv s F) s))"

definition setAttrByCalledFunc :: "addr \<Rightarrow> TState \<Rightarrow> error + TState" where
  "setAttrByCalledFunc Call s =
     (case getCalledFunction s Call of
        None \<Rightarrow> Inl NullPointerDereference
      | Some F \<Rightarrow>
          if isIntrinsic s F then Inr s
          else Inr (setAttributes Call (getAttributes s F)
                      (setCallingConv Call (getCallingConv s F) s)))"

text \<open>Modelled from the spec: \<^verbatim>\<open>addFnAttr(Context, Call, Attr)\<close> is declared in
  \<^verbatim>\<open>SPIRVInternal.h\<close> (line 524) and defined outside the sources.  The spec's emitter of
  builtin calls puts no-unwind on the call site; the helper adds the attribute to the
  function slot of the call's attribute set.\<close>

definition addFnAttr_Call :: "addr \<Rightarrow> AttrKind \<Rightarrow> TState \<Rightarrow> TState" where
  "addFnAttr_Call Call k s = addAttribute Call FunctionIndex k s"

text \<open>The declaration of a builtin as every emitter writes it (lines 1430-1433,
  1691-1694, 1801-1807, 1846-1849): external linkage, calling convention
  \<open>spir_func\<close>, no-unwind.\<close>

definition declareBuiltin :: "LType \<Rightarrow> string \<Rightarrow> TState \<Rightarrow> addr \<times> TState" where
  "declareBuiltin FT MangledName s =
     (let (Fn, s1) = Function_Create FT ExternalLinkage MangledName s;
          s2 = setCallingConv Fn SPIR_FUNC s1;
          s3 = (if isFuncNoUnwind then addFnAttr Fn NoUnwind s2 else s2)
      in (Fn, s3))"

subsection \<open>Builtins from instructions\<close>

text \<open>\<^verbatim>\<open>SPRVToLLVM::transOCLBuiltinFromInstPreproc\<close> (lines 1377-1392): the new return
  type (the argument types are left as they are).\<close>

definition transOCLBuiltinFromInstPreproc ::
  "Env \<Rightarrow> 'a SPRVInstruction_scheme \<Rightarrow> LType \<Rightarrow> error + LType" where
  "transOCLBuiltinFromInstPreproc env BI RetTy =
     (case BType BI of
        None \<Rightarrow> Inr RetTy
      | Some BT \<Rightarrow>
          if isCmpOpCode env (BOpCode BI) then
            (if isTypeBool BT then Inr (IntegerTy 32)
             else if isTypeVectorBool BT then
               (case getVectorComponentCount BT of
                  Inl e \<Rightarrow> Inl e
                | Inr n \<Rightarrow> Inr (VectorTy (IntegerTy 32) n))
             else Inl (AssertionFailed ''invalid compare instruction''))
          else Inr RetTy)"

text \<open>\<^verbatim>\<open>SPRVToLLVM::transOCLBuiltinFromInstPostproc\<close> (lines 1394-1403).\<close>

definition transOCLBuiltinFromInstPostproc ::
  "Env \<Rightarrow> 'a SPRVInstruction_scheme \<Rightarrow> addr \<Rightarrow> addr option \<Rightarrow> TState \<Rightarrow> error + (addr \<times> TState)" where
  "transOCLBuiltinFromInstPostproc env BI Inst BB s =
     (if isCmpOpCode env (BOpCode BI) then
        (case getBType BI of
           Inl e \<Rightarrow> Inl e
         | Inr BT \<Rightarrow>
             if isTypeVectorOrScalarBool BT then
               (case transType env BT of
                  Inl e \<Rightarrow> Inl e
                | Inr Ty \<Rightarrow> Inr (CastInst_Create Trunc Inst Ty ''cvt'' BB s))
             else Inr (Inst, s))
      else Inr (Inst, s))"

text \<open>The loop of lines 1411-1416: an argument of function type becomes a pointer to it
  in the private address space.\<close>

definition funcPtrArgTys :: "LType list \<Rightarrow> LType list" where
  "funcPtrArgTys ArgTys =
     map (\<lambda>I. case I of FunctionTy _ _ _ \<Rightarrow> PointerTy I SPIRAS_Private | _ \<Rightarrow> I) ArgTys"

definition hasFuncPtrArg :: "LType list \<Rightarrow> bool" where
  "hasFuncPtrArg ArgTys = (\<exists>I \<in> set ArgTys. case I of FunctionTy _ _ _ \<Rightarrow> True | _ \<Rightarrow> False)"

text \<open>The name, the argument types and the function type of the builtin (lines
  1409-1425).\<close>

definition builtinFromInstSignature ::
  "Env \<Rightarrow> string \<Rightarrow> 'a SPRVInstruction_scheme \<Rightarrow> error + (string \<times> LType)" where
  "builtinFromInstSignature env FuncName BI =
     (case getTypes (BOperands BI) of
        Inl e \<Rightarrow> Inl e
      | Inr OpTys \<Rightarrow>
          (case transTypeVector env OpTys of
             Inl e \<Rightarrow> Inl e
           | Inr ArgTys0 \<Rightarrow>
               (let ArgTys = funcPtrArgTys ArgTys0;
                    HasFuncPtrArg = hasFuncPtrArg ArgTys0
                in case (case BType BI of Some T \<Rightarrow> transType env T | None \<Rightarrow> Inr VoidTy) of
                     Inl e \<Rightarrow> Inl e
                   | Inr RetTy0 \<Rightarrow>
                       (case transOCLBuiltinFromInstPreproc env BI RetTy0 of
                          Inl e \<Rightarrow> Inl e
                        | Inr RetTy \<Rightarrow>
                            Inr (if \<not> HasFuncPtrArg
                                 then mangle env SPRVBIS_OpenCL20 FuncName ArgTys
                                 else decorateSPRVFunction env FuncName,
                                 FunctionTy RetTy ArgTys False)))))"

text \<open>The call itself, as the emitters for instructions, atomics and barriers write it
  (lines 1435-1438, 1696-1699, 1853-1855): the call with the given arguments at the end
  of the block, named, with the callee's calling convention and attributes.\<close>

definition emitBuiltinCall ::
  "addr \<Rightarrow> addr option list \<Rightarrow> string \<Rightarrow> addr option \<Rightarrow> TState \<Rightarrow> error + (addr \<times> TState)" where
  "emitBuiltinCall Fn Args n BB s =
     (case CallInst_Create Fn Args [] BB s of
        Inl e \<Rightarrow> Inl e
      | Inr (Call, s1) \<Rightarrow>
          (case setAttrByCalledFunc Call (setName Call n s1) of
             Inl e \<Rightarrow> Inl e
           | Inr s2 \<Rightarrow> Inr (Call, s2)))"

text \<open>
  \<^verbatim>\<open>SPRVToLLVM::transOCLBuiltinFromInst(FuncName, BI, BB)\<close> (lines 1405-1444).  The
  function is declared when the module has none of the mangled name or when the one it
  has is of another type.
\<close>

definition transOCLBuiltinFromInst_named ::
  "Env \<Rightarrow> string \<Rightarrow> 'a SPRVInstruction_scheme \<Rightarrow> addr option \<Rightarrow> TState \<Rightarrow> error + (addr \<times> TState)" where
  "transOCLBuiltinFromInst_named env FuncName BI BB s =
     (case builtinFromInstSignature env FuncName BI of
        Inl e \<Rightarrow> Inl e
      | Inr (MangledName, FT) \<Rightarrow>
          (let (Fn, s1) =
                 (case getFunction s MangledName of
                    None \<Rightarrow> declareBuiltin FT MangledName s
                  | Some Fn0 \<Rightarrow>
                      if getFunctionType s Fn0 \<noteq> Some FT then declareBuiltin FT MangledName s
                      else (Fn0, s))
           in case BB of
                None \<Rightarrow> Inl NullPointerDereference
              | Some bb \<Rightarrow>
                  (case transOperands env (BOperands BI) (getParent s1 bb) BB s1 of
                     Inl e \<Rightarrow> Inl e
                   | Inr (Args, s2) \<Rightarrow>
                       (case emitBuiltinCall Fn Args (BName BI) BB s2 of
                          Inl e \<Rightarrow> Inl e
                        | Inr (Call, s3) \<Rightarrow>
                            transOCLBuiltinFromInstPostproc env BI Call BB s3))))"

text \<open>Modelled from the spec: the macro \<^verbatim>\<open>OCL_BUILTIN_NDRANGE_PREFIX\<close> is not in the
  sources; the spec's scenario of a struct-returning builtin names the function
  \<^verbatim>\<open>ndrange_1D\<close>.\<close>

definition OCL_BUILTIN_NDRANGE_PREFIX :: string where
  "OCL_BUILTIN_NDRANGE_PREFIX = ''ndrange_''"

text \<open>\<^verbatim>\<open>SPRVToLLVM::getOCLConvertBuiltinName\<close> (lines 1908-1928).\<close>

definition getOCLConvertBuiltinName :: "Env \<Rightarrow> 'a SPRVInstruction_scheme \<Rightarrow> error + string" where
  "getOCLConvertBuiltinName env BI =
     (let OC = BOpCode BI
      in if \<not> isCvtOpCode env OC then Inl (AssertionFailed ''Not convert instruction'')
         else
           (case getBType BI of
              Inl e \<Rightarrow> Inl e
            | Inr T \<Rightarrow>
                (let Name0 = (if isCvtFromUnsignedOpCode env OC then ''u'' else []);
                     Name1 = Name0 @ ''convert_'';
                     Name2 = Name1 @ mapSPRVTypeToOpenCLType env T (\<not> isCvtToUnsignedOpCode env OC);
                     Name3 = (if BSaturatedConversion BI then Name2 @ ''_sat'' else Name2)
                 in case BFPRoundingMode BI of
                      None \<Rightarrow> Inr Name3
                    | Some Rounding \<Rightarrow>
                        (case rmapOrAssert (SPIRSPRVFPRoundingModeMap_rmap env Rounding) of
                           Inl e \<Rightarrow> Inl e
                         | Inr r \<Rightarrow> Inr (Name3 @ ''_'' @ r)))))"

text \<open>\<^verbatim>\<open>SPRVToLLVM::getOCLBuiltinName\<close> (lines 1446-1461).\<close>

definition getOCLBuiltinName :: "Env \<Rightarrow> 'a SPRVInstruction_scheme \<Rightarrow> error + string" where
  "getOCLBuiltinName env BI =
     (let OC = BOpCode BI
      in if isCvtOpCode env OC then getOCLConvertBuiltinName env BI
         else if OC = SPRVOC_OpBuildNDRange then
           (case BOperands BI of
              [] \<Rightarrow> Inl NullPointerDereference
            | V # _ \<Rightarrow>
                (case getBType V of
                   Inl e \<Rightarrow> Inl e
                 | Inr EleTy \<Rightarrow>
                     (let Dim = (case EleTy of SPRVTypeVector _ n \<Rightarrow> n | _ \<Rightarrow> 1)
                      in Inr (OCL_BUILTIN_NDRANGE_PREFIX @ showNat Dim @ ''D''))))
         else rmapOrAssert (SPIRSPRVBuiltinInstMap_rmap env OC))"

text \<open>\<^verbatim>\<open>SPRVToLLVM::transOCLBuiltinFromInst(BI, BB)\<close> (lines 1463-1468).\<close>

definition transOCLBuiltinFromInst ::
  "Env \<Rightarrow> 'a SPRVInstruction_scheme \<Rightarrow> addr option \<Rightarrow> TState \<Rightarrow> error + (addr \<times> TState)" where
  "transOCLBuiltinFromInst env BI BB s =
     (case BB of
        None \<Rightarrow> Inl (AssertionFailed ''Invalid BB'')
      | Some _ \<Rightarrow>
          (case getOCLBuiltinName env BI of
             Inl e \<Rightarrow> Inl e
           | Inr FuncName \<Rightarrow> transOCLBuiltinFromInst_named env FuncName BI BB s))"

subsection \<open>Atomics and barriers\<close>

text \<open>\<^verbatim>\<open>Type::getPointerElementType\<close> of the first argument type (line 1686).\<close>

definition firstPointerElementType :: "LType list \<Rightarrow> error + LType" where
  "firstPointerElementType ArgTys =
     (case ArgTys of
        [] \<Rightarrow> Inl NullPointerDereference
      | T # _ \<Rightarrow>
          (case T of
             PointerTy E _ \<Rightarrow> Inr E
           | _ \<Rightarrow> Inl (AssertionFailed ''cast<PointerType>() argument of incompatible type'')))"

text \<open>
  \<^verbatim>\<open>SPRVToLLVM::transOCLAtomic\<close> (lines 1680-1703): first the mangled name and the
  function type (lines 1682-1687, 1690), then the body.  The function is declared only
  when the module has none of the mangled name.
\<close>

definition atomicSignature :: "Env \<Rightarrow> 'a SPRVInstruction_scheme \<Rightarrow> error + (string \<times> LType)" where
  "atomicSignature env BA =
     (case rmapOrAssert (SPIRSPRVBuiltinInstMap_rmap env (BOpCode BA)) of
        Inl e \<Rightarrow> Inl e
      | Inr FuncName \<Rightarrow>
          (case getTypes (BOperands BA) of
             Inl e \<Rightarrow> Inl e
           | Inr OpTys \<Rightarrow>
               (case transTypeVector env OpTys of
                  Inl e \<Rightarrow> Inl e
                | Inr ArgTys \<Rightarrow>
                    (case firstPointerElementType ArgTys of
                       Inl e \<Rightarrow> Inl e
                     | Inr RetTy \<Rightarrow>
                         Inr (mangle env SPRVBIS_OpenCL20 FuncName ArgTys,
                              FunctionTy RetTy ArgTys False)))))"

definition transOCLAtomic ::
  "Env \<Rightarrow> 'a SPRVInstruction_scheme \<Rightarrow> addr option \<Rightarrow> TState \<Rightarrow> error + (addr \<times> TState)" where
  "transOCLAtomic env BA BB s =
     (case BB of
        None \<Rightarrow> Inl (AssertionFailed ''Invalid BB'')
      | Some bb \<Rightarrow>
          (case atomicSignature env BA of
             Inl e \<Rightarrow> Inl e
           | Inr (MangledName, FT) \<Rightarrow>
               (let (Fn, s1) =
                      (case getFunction s MangledName of
                         None \<Rightarrow> declareBuiltin FT MangledName s
                       | Some Fn0 \<Rightarrow> (Fn0, s))
                in case transOperands env (BOperands BA) (getParent s1 bb) BB s1 of
                     Inl e \<Rightarrow> Inl e
                   | Inr (Args, s2) \<Rightarrow> emitBuiltinCall Fn Args (BName BA) BB s2)))"

text \<open>\<^verbatim>\<open>rmapBitMask\<close> (\<^verbatim>\<open>SPIRVUtil.h\<close>, lines 297-304) over a table of pairs.\<close>

definition rmapBitMask :: "(nat \<times> nat) list \<Rightarrow> nat \<Rightarrow> nat" where
  "rmapBitMask M BMask = fold (\<lambda>(K, V) Res. Res OR (if BMask AND V \<noteq> 0 then K else 0)) M 0"

text \<open>\<^verbatim>\<open>SPRVToLLVM::transOCLBarrierFence\<close> (lines 1822-1859): the mangled name and
  the function type (lines 1824-1842, 1845), then the body.\<close>

definition barrierSignature :: "Env \<Rightarrow> 'a SPRVInstruction_scheme \<Rightarrow> error + (string \<times> LType)" where
  "barrierSignature env MB =
     (case (if BOpCode MB = SPRVOC_OpMemoryBarrier then Inr ''mem_fence''
            else if BOpCode MB = SPRVOC_OpControlBarrier then Inr ''barrier''
            else Inl (AssertionFailed ''Invalid instruction'')) of
        Inl e \<Rightarrow> Inl e
      | Inr FuncName \<Rightarrow>
          (let Int32Ty = IntegerTy 32;
               ArgTy = [Int32Ty]
           in Inr (mangle env SPRVBIS_OpenCL20 FuncName ArgTy, FunctionTy VoidTy ArgTy False)))"

definition transOCLBarrierFence ::
  "Env \<Rightarrow> 'a SPRVInstruction_scheme \<Rightarrow> addr option \<Rightarrow> TState \<Rightarrow> error + (addr \<times> TState)" where
  "transOCLBarrierFence env MB BB s =
     (case BB of
        None \<Rightarrow> Inl (AssertionFailed ''Invalid BB'')
      | Some bb \<Rightarrow>
          (case barrierSignature env MB of
             Inl e \<Rightarrow> Inl e
           | Inr (MangledName, FT) \<Rightarrow>
               (let MemSema = BMemSemantic MB;
                    (Fn, s1) =
                      (case getFunction s MangledName of
                         None \<Rightarrow> declareBuiltin FT MangledName s
                       | Some Fn0 \<Rightarrow> (Fn0, s));
                    (Arg, s2) = ConstantInt_get (IntegerTy 32)
                                  (int (rmapBitMask (SPIRSPRVMemFenceFlagMap env) MemSema)) s1
                in emitBuiltinCall Fn [Some Arg] (BName MB) BB s2)))"

subsection \<open>Extended instructions\<close>

text \<open>\<^verbatim>\<open>std::string::find\<close> (the position of the first occurrence, or \<^verbatim>\<open>npos\<close>),
  \<^verbatim>\<open>replace(pos, len, str)\<close> and \<^verbatim>\<open>erase(pos, len)\<close>.\<close>

fun findStr :: "string \<Rightarrow> string \<Rightarrow> nat option" where
  "findStr [] n = (if n = [] then Some 0 else None)"
| "findStr (c # cs) n =
     (if startswith (c # cs) n then Some 0 else map_option Suc (findStr cs n))"

definition replaceStr :: "string \<Rightarrow> nat \<Rightarrow> nat \<Rightarrow> string \<Rightarrow> string" where
  "replaceStr s pos len str = take pos s @ str @ drop (pos + len) s"

definition eraseStr :: "string \<Rightarrow> nat \<Rightarrow> nat \<Rightarrow> string" where
  "eraseStr s pos len = take pos s @ drop (pos + len) s"

text \<open>\<^verbatim>\<open>BM->getValueType(Id)\<close>, \<^verbatim>\<open>BC->getValues(Ids)\<close>: the values of the module by id.\<close>

definition getValue :: "SPRVModule \<Rightarrow> nat \<Rightarrow> error + SPRVValue" where
  "getValue BM i =
     (case BValues BM i of None \<Rightarrow> Inl (AssertionFailed ''Id is not in map'') | Some V \<Rightarrow> Inr V)"

fun getValues :: "SPRVModule \<Rightarrow> nat list \<Rightarrow> error + SPRVValue list" where
  "getValues BM [] = Inr []"
| "getValues BM (i # is) =
     (case getValue BM i of
        Inl e \<Rightarrow> Inl e
      | Inr V \<Rightarrow> (case getValues BM is of Inl e \<Rightarrow> Inl e | Inr Vs \<Rightarrow> Inr (V # Vs)))"

text \<open>\<^verbatim>\<open>SPRVToLLVM::transOCLVectorLoadStore\<close> (lines 1705-1737): the new name and the
  new argument words.\<close>

definition transOCLVectorLoadStore ::
  "Env \<Rightarrow> SPRVModule \<Rightarrow> string \<Rightarrow> nat list \<Rightarrow> error + (string \<times> nat list)" where
  "transOCLVectorLoadStore env BM UnmangledName BArgs =
     (if startswith UnmangledName ''vload'' \<and> findStr UnmangledName ''n'' \<noteq> None then
        (if BArgs = [] then Inl OutOfBounds
         else
           (let p = the (findStr UnmangledName ''n'')
            in Inr (if last BArgs \<noteq> 1
                    then replaceStr UnmangledName p 1 (showNat (last BArgs))
                    else eraseStr UnmangledName p 1,
                    butlast BArgs)))
      else if startswith UnmangledName ''vstore'' then
        (case (case findStr UnmangledName ''n'' of
                 None \<Rightarrow> Inr UnmangledName
               | Some p \<Rightarrow>
                   (case BArgs of
                      [] \<Rightarrow> Inl OutOfBounds
                    | a # _ \<Rightarrow>
                        (case getValue BM a of
                           Inl e \<Rightarrow> Inl e
                         | Inr V \<Rightarrow>
                             (case getBType V of
                                Inl e \<Rightarrow> Inl e
                              | Inr T \<Rightarrow>
                                  (case T of
                                     SPRVTypeVector _ W \<Rightarrow>
                                       Inr (replaceStr UnmangledName p 1 (showNat W))
                                   | _ \<Rightarrow> Inr (eraseStr UnmangledName p 1)))))) of
           Inl e \<Rightarrow> Inl e
         | Inr Name1 \<Rightarrow>
             (case findStr Name1 ''_r'' of
                None \<Rightarrow> Inr (Name1, BArgs)
              | Some p \<Rightarrow>
                  if BArgs = [] then Inl OutOfBounds
                  else
                    (case castFPRoundingMode env (last BArgs) of
                       None \<Rightarrow> Inl (AssertionFailed ''Invalid key'')
                     | Some k \<Rightarrow>
                         (case rmapOrAssert (SPIRSPRVFPRoundingModeMap_rmap env k) of
                            Inl e \<Rightarrow> Inl e
                          | Inr r \<Rightarrow> Inr (replaceStr Name1 p 2 (''_'' @ r), butlast BArgs)))))
      else Inr (UnmangledName, BArgs))"

text \<open>The name of the extended instruction (lines 1752-1773): whether it is
  \<^verbatim>\<open>printf\<close>, and its unmangled name otherwise.\<close>

definition extInstName :: "Env \<Rightarrow> SPRVExtInstSetKind \<Rightarrow> nat \<Rightarrow> error + (bool \<times> string)" where
  "extInstName env Set EntryPoint =
     (if Set = SPRVBIS_OpenCL12 \<or> Set = SPRVBIS_OpenCL20 \<or> Set = SPRVBIS_OpenCL21 then
        (if EntryPoint = OCLPrintf env Set then Inr (True, [])
         else (case rmapOrAssert (OCLExtInstMap env Set EntryPoint) of
                 Inl e \<Rightarrow> Inl e
               | Inr n \<Rightarrow> Inr (False, n)))
      else Inr (False, []))"

text \<open>The mangled name, the variadic flag and the parameter types (lines 1781-1791).\<close>

definition extInstSignature ::
  "Env \<Rightarrow> SPRVExtInstSetKind \<Rightarrow> bool \<Rightarrow> string \<Rightarrow> LType list \<Rightarrow> error + (string \<times> bool \<times> LType list)" where
  "extInstSignature env Set IsPrintf UnmangledName ArgTypes =
     (if IsPrintf then
        (if ArgTypes = [] then Inl NullPointerDereference
         else Inr (''printf'', True, take 1 ArgTypes))
      else if startswith UnmangledName ''read_image'' then
        (if length ArgTypes < 2 then Inl OutOfBounds
         else Inr (mangle env Set UnmangledName
                     (ArgTypes[1 := getOrCreateOpaquePtrType ''opencl.sampler_t'']),
                   False, ArgTypes))
      else Inr (mangle env Set UnmangledName ArgTypes, False, ArgTypes))"

text \<open>
  \<^verbatim>\<open>SPRVToLLVM::transOCLBuiltinFromExtInst\<close> (lines 1741-1820): the mangled name, the
  function type and the argument values (lines 1744-1798), then the body.  The function
  is declared only when the module has none of the mangled name; the call takes the
  callee's calling convention and the no-unwind attribute.
\<close>

definition extInstCallSignature ::
  "Env \<Rightarrow> SPRVModule \<Rightarrow> 'a SPRVExtInst_scheme \<Rightarrow> error + (string \<times> LType \<times> SPRVValue list)" where
  "extInstCallSignature env BM BC =
     (let Set = BBuiltinSets BM (BBuiltinSetId BC)
      in case extInstName env Set (BEntryPoint BC) of
           Inl e \<Rightarrow> Inl e
         | Inr (IsPrintf, UnmangledName0) \<Rightarrow>
             (case transOCLVectorLoadStore env BM UnmangledName0 (BExtArguments BC) of
                Inl e \<Rightarrow> Inl e
              | Inr (UnmangledName, BArgs) \<Rightarrow>
                  (case getValues BM BArgs of
                     Inl e \<Rightarrow> Inl e
                   | Inr Vals \<Rightarrow>
                       (case getTypes Vals of
                          Inl e \<Rightarrow> Inl e
                        | Inr ValTys \<Rightarrow>
                            (case transTypeVector env ValTys of
                               Inl e \<Rightarrow> Inl e
                             | Inr ArgTypes0 \<Rightarrow>
                                 (case extInstSignature env Set IsPrintf UnmangledName ArgTypes0 of
                                    Inl e \<Rightarrow> Inl e
                                  | Inr (MangledName, IsVarArg, ArgTypes) \<Rightarrow>
                                      (case getBType BC of
                                         Inl e \<Rightarrow> Inl e
                                       | Inr BT \<Rightarrow>
                                           (case transType env BT of
                                              Inl e \<Rightarrow> Inl e
                                            | Inr RetTy \<Rightarrow>
                                                Inr (MangledName,
                                                     FunctionTy RetTy ArgTypes IsVarArg,
                                                     Vals)))))))))"

definition transOCLBuiltinFromExtInst ::
  "Env \<Rightarrow> SPRVModule \<Rightarrow> 'a SPRVExtInst_scheme \<Rightarrow> addr option \<Rightarrow> TState \<Rightarrow> error + (addr \<times> TState)" where
  "transOCLBuiltinFromExtInst env BM BC BB s =
     (case BB of
        None \<Rightarrow> Inl (AssertionFailed ''Invalid BB'')
      | Some bb \<Rightarrow>
          (case extInstCallSignature env BM BC of
             Inl e \<Rightarrow> Inl e
           | Inr (MangledName, FT, Vals) \<Rightarrow>
               (let (Fn, s1) =
                      (case getFunction s MangledName of
                         None \<Rightarrow> declareBuiltin FT MangledName s
                       | Some Fn0 \<Rightarrow> (Fn0, s))
                in case transOperands env Vals (Some Fn) BB s1 of
                     Inl e \<Rightarrow> Inl e
                   | Inr (Args, s2) \<Rightarrow>
                       (case CallInst_Create Fn Args (BName BC) BB s2 of
                          Inl e \<Rightarrow> Inl e
                        | Inr (Call, s3) \<Rightarrow>
                            (case setCallingConv_Call Call s3 of
                               Inl e \<Rightarrow> Inl e
                             | Inr s4 \<Rightarrow> Inr (Call, addFnAttr_Call Call NoUnwind s4))))))"

subsection \<open>Memory copies and the instructions without a case of their own\<close>

text \<open>
  The case \<^verbatim>\<open>SPRVOC_OpCopyMemorySized\<close> of \<^verbatim>\<open>transValueWithoutDecoration\<close> (lines
  1069-1112).  The function is created on every call, without a lookup; the size
  argument is the translated size cast to a constant integer, null when it is none.
\<close>

definition memcpySuffix :: "SPRVStorageClassKind \<Rightarrow> string" where
  "memcpySuffix sc = (if sc = SPRVSC_Private then ''.p0i8'' else ''.p1i8'')"

definition transCopyMemorySized ::
  "Env \<Rightarrow> 'a SPRVCopyMemorySized_scheme \<Rightarrow> addr option \<Rightarrow> TState \<Rightarrow> error + (addr \<times> TState)" where
  "transCopyMemorySized env BC BB s =
     (case BB of
        None \<Rightarrow> Inl (AssertionFailed ''Invalid BB'')
      | Some bb \<Rightarrow>
          (case getBType (BSource BC) of
             Inl e \<Rightarrow> Inl e
           | Inr BS \<Rightarrow>
          (case getBType (BTarget BC) of
             Inl e \<Rightarrow> Inl e
           | Inr BT \<Rightarrow>
          (case transType env BS of
             Inl e \<Rightarrow> Inl e
           | Inr SrcTy \<Rightarrow>
          (case transType env BT of
             Inl e \<Rightarrow> Inl e
           | Inr TrgTy \<Rightarrow>
          (case getBType (BSize BC) of
             Inl e \<Rightarrow> Inl e
           | Inr BSz \<Rightarrow>
          (case transType env BSz of
             Inl e \<Rightarrow> Inl e
           | Inr SizeTy \<Rightarrow>
          (case getPointerStorageClass BT of
             Inl e \<Rightarrow> Inl e
           | Inr scT \<Rightarrow>
          (case getPointerStorageClass BS of
             Inl e \<Rightarrow> Inl e
           | Inr scS \<Rightarrow>
          (case getBitWidth BSz of
             Inl e \<Rightarrow> Inl e
           | Inr w \<Rightarrow>
               (let Int1Ty = IntegerTy 1;
                    Int32Ty = IntegerTy 32;
                    ArgTy = [TrgTy, SrcTy, SizeTy, Int32Ty, Int1Ty];
                    FuncName = ''llvm.memcpy'' @ memcpySuffix scT @ memcpySuffix scS
                                 @ (if w = 32 then ''.i32'' else ''.i64'');
                    FT = FunctionTy VoidTy ArgTy False;
                    (Fn, s1) = Function_Create FT ExternalLinkage FuncName s;
                    s2 = (if isFuncNoUnwind then addFnAttr Fn NoUnwind s1 else s1)
                in case transOperand env (BTarget BC) (Some Fn) BB True s2 of
                     Inl e \<Rightarrow> Inl e
                   | Inr (a1, s3) \<Rightarrow>
                (case transOperand env (BSource BC) (Some Fn) BB True s3 of
                     Inl e \<Rightarrow> Inl e
                   | Inr (a2, s4) \<Rightarrow>
                (case transOperand env (BSize BC) (Some Fn) BB True s4 of
                     Inl e \<Rightarrow> Inl e
                   | Inr (sz, s5) \<Rightarrow>
                       (let a3 = dyn_cast_ConstantInt s5 sz;
                            (a4, s6) = ConstantInt_get Int32Ty (int (BAlignment BC)) s5;
                            (a5, s7) = ConstantInt_get Int1Ty (if BVolatile BC then 1 else 0) s6
                        in case CallInst_Create Fn [a1, a2, a3, Some a4, Some a5] [] BB s7 of
                             Inl e \<Rightarrow> Inl e
                           | Inr (Call, s8) \<Rightarrow> mapValue (BId BC) Call s8))))))))))))))"

text \<open>\<^verbatim>\<open>SPRVToLLVM::isSPRVCmpInstTransToLLVMInst\<close> (lines 613-618).\<close>

definition isSPRVCmpInstTransToLLVMInst :: "Env \<Rightarrow> 'a SPRVInstruction_scheme \<Rightarrow> bool" where
  "isSPRVCmpInstTransToLLVMInst env BI =
     (let OC = BOpCode BI
      in isCmpOpCode env OC \<and>
         \<not> (opCodeNumber env OC \<ge> opCodeNumber env SPRVOC_OpLessOrGreater \<and>
            opCodeNumber env OC \<le> opCodeNumber env SPRVOC_OpUnordered))"

text \<open>
  The \<^verbatim>\<open>default\<close> case of the switch over instructions in
  \<^verbatim>\<open>transValueWithoutDecoration\<close> (lines 1271-1295): the fallbacks in the order of the
  source, and the registration of the result.
\<close>

definition transInstDefault ::
  "Env \<Rightarrow> SPRVInstruction \<Rightarrow> addr option \<Rightarrow> addr option \<Rightarrow> TState \<Rightarrow> error + (addr \<times> TState)" where
  "transInstDefault env BV F BB s =
     (case (if BIsAtomic BV then transOCLAtomic env BV BB s
            else if isSPRVCmpInstTransToLLVMInst env BV then transCmpInst env BV BB F s
            else if SPIRSPRVBuiltinInstMap_rmap env (BOpCode BV) \<noteq> None
              then transOCLBuiltinFromInst env BV BB s
            else if isBinaryShiftLogicalBitwiseOpCode env (BOpCode BV)
              then transShiftLogicalBitwiseInst env BV BB F s
            else if isCvtOpCode env (BOpCode BV) then
              (if BFPRoundingMode BV \<noteq> None \<or> BSaturatedConversion BV
               then transOCLBuiltinFromInst env BV BB s
               else transConvertInst env BV F BB s)
            else Inl (AssertionFailed ''Translation of SPIRV instruction not implemented'')) of
        Inl e \<Rightarrow> Inl e
      | Inr (Inst, s1) \<Rightarrow> mapValue (BId BV) Inst s1)"

section \<open>The driver: addressing model, \<open>translate\<close>, \<open>ReadSPRV\<close>\<close>

text \<open>\<^verbatim>\<open>SPIRVInternal.h\<close>, lines 171-182.\<close>

definition SPIR_TARGETTRIPLE32 :: string where
  "SPIR_TARGETTRIPLE32 = ''spir-unknown-unknown''"

definition SPIR_TARGETTRIPLE64 :: string where
  "SPIR_TARGETTRIPLE64 = ''spir64-unknown-unknown''"

definition SPIR_DATALAYOUT32 :: string where
  "SPIR_DATALAYOUT32 =
     ''e-p:32:32:32-i1:8:8-i8:8:8-i16:16:16-i32:32:32'' @
     ''-i64:64:64-f32:32:32-f64:64:64-v16:16:16-v24:32:32'' @
     ''-v32:32:32-v48:64:64-v64:64:64-v96:128:128'' @
     ''-v128:128:128-v192:256:256-v256:256:256'' @
     ''-v512:512:512-v1024:1024:1024''"

definition SPIR_DATALAYOUT64 :: string where
  "SPIR_DATALAYOUT64 =
     ''e-p:64:64:64-i1:8:8-i8:8:8-i16:16:16-i32:32:32'' @
     ''-i64:64:64-f32:32:32-f64:64:64-v16:16:16-v24:32:32'' @
     ''-v32:32:32-v48:64:64-v64:64:64-v96:128:128'' @
     ''-v128:128:128-v192:256:256-v256:256:256'' @
     ''-v512:512:512-v1024:1024:1024''"

text \<open>\<^verbatim>\<open>Module::setTargetTriple\<close> and \<^verbatim>\<open>Module::setDataLayout\<close>.\<close>

definition setTargetTriple :: "string \<Rightarrow> TState \<Rightarrow> TState" where
  "setTargetTriple x s = s\<lparr>TargetTriple := x\<rparr>"

definition setDataLayout :: "string \<Rightarrow> TState \<Rightarrow> TState" where
  "setDataLayout x s = s\<lparr>DataLayout := x\<rparr>"

text \<open>Modelled from the spec: the macro \<^verbatim>\<open>SPRVCKRT(Condition, ErrCode, ErrMsg)\<close> is not
  in the sources.  By the spec's error handling design a failed check is fatal to the
  run and surfaces one error through the module's error log: with a false condition
  the log takes the error code and the message, and the function that checks returns
  false.\<close>

definition SPRVCKRT_failed :: "SPRVErrorCode \<Rightarrow> string \<Rightarrow> SPRVModule \<Rightarrow> SPRVModule" where
  "SPRVCKRT_failed code msg BM = BM\<lparr>BErrorCode := code, BErrorMsg := msg\<rparr>"

text \<open>\<^verbatim>\<open>SPRVToLLVM::transAddressingModel\<close> (lines 1501-1520).  The result is the returned
  flag, the input module with its error log, and the state.\<close>

definition transAddressingModel :: "SPRVModule \<Rightarrow> TState \<Rightarrow> bool \<times> SPRVModule \<times> TState" where
  "transAddressingModel BM s =
     (case BAddressingModel BM of
        SPRVAM_Physical64 \<Rightarrow>
          (True, BM, setDataLayout SPIR_DATALAYOUT64 (setTargetTriple SPIR_TARGETTRIPLE64 s))
      | SPRVAM_Physical32 \<Rightarrow>
          (True, BM, setDataLayout SPIR_DATALAYOUT32 (setTargetTriple SPIR_TARGETTRIPLE32 s))
      | SPRVAM_Logical \<Rightarrow> (True, BM, s)
      | SPRVAM_Other n \<Rightarrow>
          (False,
           SPRVCKRT_failed SPRVEC_InvalidAddressingModel
             (''Actual addressing mode is '' @ showNat n) BM,
           s))"

text \<open>
  \<^verbatim>\<open>SPRVToLLVM::translate\<close> (lines 1470-1499).  The phases after the addressing model
  (variables, functions, metadata, builtin variables, post-processing; lines 1475-1497)
  are the argument \<open>rest\<close>: they run on the state the addressing model left and give
  the flag that \<open>translate\<close> returns.  None of them calls \<^verbatim>\<open>setTargetTriple\<close> or
  \<^verbatim>\<open>setDataLayout\<close>: the two calls of lines 1505-1510 are the only ones in the file.
\<close>

type_synonym phases = "SPRVModule \<Rightarrow> TState \<Rightarrow> bool \<times> SPRVModule \<times> TState"

definition translate :: "phases \<Rightarrow> SPRVModule \<Rightarrow> TState \<Rightarrow> bool \<times> SPRVModule \<times> TState" where
  "translate rest BM s =
     (case transAddressingModel BM s of
        (False, BM1, s1) \<Rightarrow> (False, BM1, s1)
      | (True, BM1, s1) \<Rightarrow> rest BM1 s1)"

definition keepsTargetTriple :: "phases \<Rightarrow> bool" where
  "keepsTargetTriple rest =
     (\<forall>BM s. TargetTriple (snd (snd (rest BM s))) = TargetTriple s
           \<and> DataLayout (snd (snd (rest BM s))) = DataLayout s)"

text \<open>
  The world around \<^verbatim>\<open>llvm::ReadSPRV\<close>: the \<^verbatim>\<open>llvm::Module\<close> objects that are alive, and
  the files.  \<open>CanOpen\<close> says whether opening a file for writing succeeds.
\<close>

record World =
  ModuleHeap :: "addr \<rightharpoonup> TState"
  NextModule :: addr
  Files :: "string \<rightharpoonup> string"
  CanOpen :: "string \<Rightarrow> bool"

text \<open>Lines 83-85.\<close>

definition DbgSaveTmpLLVM :: bool where
  "DbgSaveTmpLLVM = True"

definition DbgTmpLLVMFileName :: string where
  "DbgTmpLLVMFileName = ''_tmp_llvmbil.ll''"

text \<open>
  \<^verbatim>\<open>dumpLLVM\<close> (lines 94-102).  \<^verbatim>\<open>raw_fd_ostream FS(FName, EC, F_None)\<close> opens the file
  for writing: on success the file exists and is empty and \<^verbatim>\<open>EC\<close> is clear, on failure
  \<^verbatim>\<open>EC\<close> is set and the stream has no file.  The body \<^verbatim>\<open>FS << *M; FS.close();\<close> runs
  under \<^verbatim>\<open>if (EC)\<close>, that is when the open failed: it writes to and closes a stream that
  has no file, which LLVM's stream refuses (\<^verbatim>\<open>close\<close> asserts that there is a file to
  close).  \<open>print\<close> is LLVM's printer of a module as text.
\<close>

definition dumpLLVM :: "(TState \<Rightarrow> string) \<Rightarrow> TState \<Rightarrow> string \<Rightarrow> World \<Rightarrow> error + World" where
  "dumpLLVM print M FName w =
     (let EC = \<not> CanOpen w FName;
          w1 = (if EC then w else w\<lparr>Files := (Files w)(FName \<mapsto> [])\<rparr>)
      in if EC then Inl (AssertionFailed ''raw_fd_ostream: no file to write or close'')
         else Inr w1)"

text \<open>\<^verbatim>\<open>new Module("", C)\<close>: nothing in it, no target triple, no data layout.\<close>

definition Module_new :: TState where
  "Module_new =
     \<lparr>Heap = Map.empty, NextAddr = 0, ModGlobals = [], ModFunctions = [],
      FuncArgs = (\<lambda>_. []), BlockInsts = (\<lambda>_. []), LastUnique = 0, TargetTriple = [], DataLayout = [],
      ValueMap = Map.empty, FuncMap = Map.empty, PlaceholderMap = Map.empty\<rparr>"

text \<open>Modelled from the spec: \<^verbatim>\<open>SPRVModule::getError(ErrMsg)\<close> is not in the sources;
  by the spec a failure populates the caller-supplied string, from the error log of
  the module.\<close>

definition getError :: "SPRVModule \<Rightarrow> string" where
  "getError BM = BErrorMsg BM"

text \<open>
  \<^verbatim>\<open>llvm::ReadSPRV\<close> (lines 1932-1953).  \<open>parse\<close> is the reader of the binary
  (\<^verbatim>\<open>IS >> *BM\<close>), \<open>ErrMsg\<close> the caller's string on entry.  The result is the returned
  flag, the caller's module pointer, the caller's string, and the world.
\<close>

definition ReadSPRV ::
  "phases \<Rightarrow> (TState \<Rightarrow> string) \<Rightarrow> ('is \<Rightarrow> SPRVModule) \<Rightarrow> 'is \<Rightarrow> string \<Rightarrow> World
     \<Rightarrow> error + (bool \<times> addr option \<times> string \<times> World)" where
  "ReadSPRV rest print parse IS ErrMsg w =
     (let M = NextModule w;
          w1 = w\<lparr>ModuleHeap := (ModuleHeap w)(M \<mapsto> Module_new), NextModule := Suc M\<rparr>;
          BM = parse IS;
          (ok, BM1, s1) = translate rest BM Module_new;
          w2 = w1\<lparr>ModuleHeap := (ModuleHeap w1)(M \<mapsto> s1)\<rparr>;
          ErrMsg1 = (if \<not> ok then getError BM1 else ErrMsg);
          Succeed = ok
      in case (if DbgSaveTmpLLVM then dumpLLVM print s1 DbgTmpLLVMFileName w2 else Inr w2) of
           Inl e \<Rightarrow> Inl e
         | Inr w3 \<Rightarrow>
             if \<not> Succeed
             then Inr (Succeed, None, ErrMsg1, w3\<lparr>ModuleHeap := (ModuleHeap w3)(M := None)\<rparr>)
             else Inr (Succeed, Some M, ErrMsg1, w3))"

section \<open>Example inputs\<close>

text \<open>Concrete states and inputs on which the theorems below are run.\<close>

definition emptyState :: TState where
  "emptyState = Module_new\<lparr>NextAddr := 1\<rparr>"

definition exNode :: "ValueKind \<Rightarrow> string \<Rightarrow> LType \<Rightarrow> addr option list \<Rightarrow> addr option \<Rightarrow> LValue" where
  "exNode k n ty ops par =
     \<lparr>VKind = k, VName = n, VType = ty, Operands = ops, Parent = par,
      Linkage = ExternalLinkage, CallConv = CallingConv_C, Attrs = (\<lambda>_. {})\<rparr>"

text \<open>
  A block (address 0) that holds a placeholder load (2) of the global \<open>placeholder.x\<close>
  (1), an instruction (3) that uses the load twice, and the real value (4); the SPIR-V
  value 7 is mapped to the load.
\<close>

definition exPlaceholderState :: TState where
  "exPlaceholderState =
     emptyState
       \<lparr>Heap := [0 \<mapsto> exNode BasicBlockK ''entry'' VoidTy [] None,
                 1 \<mapsto> (exNode GlobalVariableK ''placeholder.x'' (PointerTy (IntegerTy 32) 0) [] None)
                        \<lparr>Linkage := PrivateLinkage\<rparr>,
                 2 \<mapsto> exNode LoadInstK ''x'' (IntegerTy 32) [Some 1] (Some 0),
                 3 \<mapsto> exNode InstructionK ''y'' (IntegerTy 32) [Some 2, Some 2] (Some 0),
                 4 \<mapsto> exNode InstructionK ''x'' (IntegerTy 32) [Some 3, Some 3] (Some 0)],
        NextAddr := 5,
        ModGlobals := [1],
        BlockInsts := (\<lambda>_. [])(0 := [2, 3, 4]),
        ValueMap := [7 \<mapsto> 2],
        PlaceholderMap := [7 \<mapsto> 2]\<rparr>"

text \<open>An input module with a given addressing model and no entry point; later phases
  that do nothing and succeed; a world in which every file can be opened.\<close>

definition exModule :: "SPRVAddressingModelKind \<Rightarrow> SPRVModule" where
  "exModule am =
     \<lparr>BAddressingModel = am, BKernelEntryPoints = {},
      BBuiltinSets = (\<lambda>_. SPRVBIS_OpenCL20), BValues = Map.empty,
      BErrorCode = SPRVEC_Success, BErrorMsg = []\<rparr>"

definition noPhases :: phases where
  "noPhases BM s = (True, BM, s)"

definition exWorld :: World where
  "exWorld = \<lparr>ModuleHeap = Map.empty, NextModule = 0, Files = Map.empty, CanOpen = (\<lambda>_. True)\<rparr>"





section \<open>Properties of the identity maps\<close>

lemma placeholderOf_SomeD:
  assumes "placeholderOf s LD = Some GV"
  shows "dyn_cast_LoadInst s LD = Some LD"
    and "dyn_cast_GlobalVariable s (getPointerOperand s LD) = Some GV"
    and "startswith (getName s GV) kPlaceholderPrefix"
  using assms
  by (auto simp: placeholderOf_def dyn_cast_LoadInst_def split: option.splits if_splits)

lemma placeholderOf_NoneD:
  assumes "placeholderOf s LD = None"
  shows "dyn_cast_LoadInst s LD = None
     \<or> (dyn_cast_LoadInst s LD = Some LD
          \<and> dyn_cast_GlobalVariable s (getPointerOperand s LD) = None)
     \<or> (\<exists>GV. dyn_cast_LoadInst s LD = Some LD
          \<and> dyn_cast_GlobalVariable s (getPointerOperand s LD) = Some GV
          \<and> \<not> startswith (getName s GV) kPlaceholderPrefix)"
  using assms
  by (auto simp: placeholderOf_def dyn_cast_LoadInst_def split: option.splits if_splits)

lemma mapValue_not_placeholder:
  assumes "ValueMap s BV = Some LD" and "LD \<noteq> V" and "placeholderOf s LD = None"
  shows "\<exists>e. mapValue BV V s = Inl e"
  using placeholderOf_NoneD[OF assms(3)] assms(1,2)
  by (auto simp: mapValue_def)

lemma placeholder_objects:
  assumes p: "placeholderOf s LD = Some GV"
  obtains v g where "Heap s LD = Some v" and "VKind v = LoadInstK"
    and "Heap s GV = Some g" and "VKind g = GlobalVariableK" and "LD \<noteq> GV"
proof -
  note d = placeholderOf_SomeD[OF p]
  obtain v where hv: "Heap s LD = Some v" "VKind v = LoadInstK"
    using d(1) by (auto simp: dyn_cast_LoadInst_def split: option.splits if_splits)
  obtain g where hg: "Heap s GV = Some g" "VKind g = GlobalVariableK"
    using d(2) by (auto simp: dyn_cast_GlobalVariable_def split: option.splits if_splits)
  have "LD \<noteq> GV" using hv hg by auto
  with hv hg that show thesis by blast
qed

lemma mapValue_placeholder_detached:
  assumes m: "ValueMap s BV = Some LD" and ne: "LD \<noteq> V"
    and p: "placeholderOf s LD = Some GV" and a: "\<not> attached s LD GV"
  shows "mapValue BV V s = Inl NullPointerDereference"
proof -
  note d = placeholderOf_SomeD[OF p]
  obtain v g where o: "Heap s LD = Some v" "Heap s GV = Some g" "LD \<noteq> GV"
    using placeholder_objects[OF p] by metis
  show ?thesis
    using m ne d o a
    by (auto simp: mapValue_def replaceAllUsesWith_def dropAllReferences_def
        removeFromParent_Inst_def removeFromParent_GV_def Let_def attached_def
        split: option.splits)
qed

lemma mapValue_placeholder_attached:
  assumes m: "ValueMap s BV = Some LD" and ne: "LD \<noteq> V"
    and p: "placeholderOf s LD = Some GV" and a: "attached s LD GV"
  shows "\<exists>s'. mapValue BV V s = Inr (V, s')
           \<and> ValueMap s' = (ValueMap s)(BV \<mapsto> V)
           \<and> (\<forall>u v. Heap s u = Some v \<longrightarrow>
                 (\<exists>v'. Heap s' u = Some v' \<and>
                    Operands v' = (if u = LD \<or> u = GV then map (\<lambda>_. None) (Operands v)
                                   else map (replaceUse LD V) (Operands v))))
           \<and> (\<exists>v'. Heap s' LD = Some v' \<and> Parent v' = None)
           \<and> (\<forall>v bb. Heap s LD = Some v \<longrightarrow> Parent v = Some bb \<longrightarrow> LD \<notin> set (BlockInsts s' bb))
           \<and> GV \<notin> set (ModGlobals s')"
proof -
  note d = placeholderOf_SomeD[OF p]
  obtain v g where o: "Heap s LD = Some v" "Heap s GV = Some g" "LD \<noteq> GV"
    using placeholder_objects[OF p] by metis
  obtain bb where pb: "Parent v = Some bb" and gm: "GV \<in> set (ModGlobals s)"
    using a o by (auto simp: attached_def)
  show ?thesis
    using m ne d o pb gm
    by (auto simp: mapValue_def replaceAllUsesWith_def dropAllReferences_def
        removeFromParent_Inst_def removeFromParent_GV_def Let_def)
qed

text \<open>
  C1.  A second call of \<open>mapValue\<close> for a mapped SPIR-V value with a different new value
  goes on only when the existing entry is a load of a global variable whose name begins
  with \<open>placeholder.\<close>: on every other entry the call stops (the source asserts it).
  On such an entry, with the load in a block and the global in the module, the call
  returns the new value, the map entry is the new value, every operand slot that held
  the load holds the new value, and the load and the global have no operands left and
  are unlinked from the block and from the module.
\<close>

theorem mapValue_second_write:
  assumes "ValueMap s BV = Some LD" and "LD \<noteq> V"
  shows "case placeholderOf s LD of
           None \<Rightarrow> (\<exists>e. mapValue BV V s = Inl e)
         | Some GV \<Rightarrow>
             if attached s LD GV
             then (\<exists>s'. mapValue BV V s = Inr (V, s')
                    \<and> ValueMap s' = (ValueMap s)(BV \<mapsto> V)
                    \<and> (\<forall>u v. Heap s u = Some v \<longrightarrow>
                          (\<exists>v'. Heap s' u = Some v' \<and>
                             Operands v' =
                               (if u = LD \<or> u = GV then map (\<lambda>_. None) (Operands v)
                                else map (replaceUse LD V) (Operands v))))
                    \<and> (\<exists>v'. Heap s' LD = Some v' \<and> Parent v' = None)
                    \<and> (\<forall>v bb. Heap s LD = Some v \<longrightarrow> Parent v = Some bb \<longrightarrow>
                          LD \<notin> set (BlockInsts s' bb))
                    \<and> GV \<notin> set (ModGlobals s'))
             else mapValue BV V s = Inl NullPointerDereference"
proof (cases "placeholderOf s LD")
  case None
  then show ?thesis
    using mapValue_not_placeholder[OF assms] by simp
next
  case (Some GV)
  show ?thesis
  proof (cases "attached s LD GV")
    case True
    then show ?thesis
      using mapValue_placeholder_attached[OF assms Some True] Some by simp
  next
    case False
    then show ?thesis
      using mapValue_placeholder_detached[OF assms Some False] Some by simp
  qed
qed

lemma exPlaceholderState_placeholder:
  "placeholderOf exPlaceholderState 2 = Some 1 \<and> attached exPlaceholderState 2 1"
  by (simp add: exPlaceholderState_def emptyState_def Module_new_def exNode_def placeholderOf_def
      dyn_cast_LoadInst_def dyn_cast_GlobalVariable_def getPointerOperand_def getName_def
      kPlaceholderPrefix_def attached_def)

theorem mapValue_second_write_witness:
  "\<exists>s'. mapValue 7 4 exPlaceholderState = Inr (4, s')
     \<and> ValueMap s' 7 = Some 4
     \<and> map_option Operands (Heap s' 3) = Some [Some 4, Some 4]
     \<and> map_option Operands (Heap s' 2) = Some [None]
     \<and> map_option Parent (Heap s' 2) = Some None
     \<and> 2 \<notin> set (BlockInsts s' 0)
     \<and> 1 \<notin> set (ModGlobals s')"
proof -
  have m: "ValueMap exPlaceholderState 7 = Some 2"
    by (simp add: exPlaceholderState_def emptyState_def Module_new_def)
  have h: "Heap exPlaceholderState 3 = Some (exNode InstructionK ''y'' (IntegerTy 32) [Some 2, Some 2] (Some 0))"
    "Heap exPlaceholderState 2 = Some (exNode LoadInstK ''x'' (IntegerTy 32) [Some 1] (Some 0))"
    by (simp_all add: exPlaceholderState_def emptyState_def Module_new_def)
  from mapValue_second_write[OF m, of 4] exPlaceholderState_placeholder
  obtain s' where r: "mapValue 7 4 exPlaceholderState = Inr (4, s')"
    and vm: "ValueMap s' = (ValueMap exPlaceholderState)(7 \<mapsto> 4)"
    and ops: "\<forall>u v. Heap exPlaceholderState u = Some v \<longrightarrow>
                 (\<exists>v'. Heap s' u = Some v' \<and>
                    Operands v' = (if u = 2 \<or> u = 1 then map (\<lambda>_. None) (Operands v)
                                   else map (replaceUse 2 4) (Operands v)))"
    and par: "\<exists>v'. Heap s' 2 = Some v' \<and> Parent v' = None"
    and blk: "\<forall>v bb. Heap exPlaceholderState 2 = Some v \<longrightarrow> Parent v = Some bb \<longrightarrow>
                 2 \<notin> set (BlockInsts s' bb)"
    and glb: "1 \<notin> set (ModGlobals s')"
    by auto
  from ops[rule_format, OF h(1)] have o3: "map_option Operands (Heap s' 3) = Some [Some 4, Some 4]"
    by (auto simp: exNode_def replaceUse_def)
  from ops[rule_format, OF h(2)] have o2: "map_option Operands (Heap s' 2) = Some [None]"
    by (auto simp: exNode_def)
  from par have p2: "map_option Parent (Heap s' 2) = Some None" by auto
  from blk[rule_format, OF h(2)] have b: "2 \<notin> set (BlockInsts s' 0)" by (simp add: exNode_def)
  from r vm o3 o2 p2 b glb show ?thesis by auto
qed

text \<open>
  C10.  Mapping a SPIR-V value to the value it is already mapped to returns that value
  and leaves the whole state as it was: the maps, the module and every object in it.
\<close>

theorem mapValue_same_value_noop:
  assumes "ValueMap s BV = Some V"
  shows "mapValue BV V s = Inr (V, s)"
  using assms by (simp add: mapValue_def)

theorem mapValue_same_value_noop_witness:
  "mapValue 7 2 exPlaceholderState = Inr (2, exPlaceholderState)"
proof -
  have "ValueMap exPlaceholderState 7 = Some 2"
    by (simp add: exPlaceholderState_def emptyState_def Module_new_def)
  then show ?thesis by (rule mapValue_same_value_noop)
qed

section \<open>Properties of the driver\<close>

lemma keepsTargetTripleD:
  assumes "keepsTargetTriple rest" and "rest B t = (ok, B', t')"
  shows "TargetTriple t' = TargetTriple t" and "DataLayout t' = DataLayout t"
proof -
  from assms(1) have "TargetTriple (snd (snd (rest B t))) = TargetTriple t
      \<and> DataLayout (snd (snd (rest B t))) = DataLayout t"
    unfolding keepsTargetTriple_def by blast
  with assms(2) show "TargetTriple t' = TargetTriple t" and "DataLayout t' = DataLayout t"
    by simp_all
qed

text \<open>
  C3.  \<open>translate\<close> begins with the addressing model.  For \<open>Physical32\<close> the later phases
  run on a module whose target triple is \<open>spir-unknown-unknown\<close> and whose data layout
  is the 32-bit string; for \<open>Physical64\<close> on \<open>spir64-unknown-unknown\<close> and the 64-bit
  string; for \<open>Logical\<close> on the module as it was.  For any other value \<open>translate\<close>
  returns false at once, with the invalid-addressing-model error in the log, and the
  module untouched.  Since the later phases change neither field, the same holds of the
  module \<open>translate\<close> leaves.
\<close>

theorem translate_addressing_model:
  "translate rest BM s =
     (case BAddressingModel BM of
        SPRVAM_Physical32 \<Rightarrow>
          rest BM (s\<lparr>TargetTriple := ''spir-unknown-unknown'', DataLayout := SPIR_DATALAYOUT32\<rparr>)
      | SPRVAM_Physical64 \<Rightarrow>
          rest BM (s\<lparr>TargetTriple := ''spir64-unknown-unknown'', DataLayout := SPIR_DATALAYOUT64\<rparr>)
      | SPRVAM_Logical \<Rightarrow> rest BM s
      | SPRVAM_Other n \<Rightarrow>
          (False, BM\<lparr>BErrorCode := SPRVEC_InvalidAddressingModel,
                       BErrorMsg := ''Actual addressing mode is '' @ showNat n\<rparr>, s))
   \<and> (keepsTargetTriple rest \<longrightarrow>
        (case translate rest BM s of
           (ok, BM', s') \<Rightarrow>
             (case BAddressingModel BM of
                SPRVAM_Physical32 \<Rightarrow>
                  TargetTriple s' = ''spir-unknown-unknown'' \<and> DataLayout s' = SPIR_DATALAYOUT32
              | SPRVAM_Physical64 \<Rightarrow>
                  TargetTriple s' = ''spir64-unknown-unknown'' \<and> DataLayout s' = SPIR_DATALAYOUT64
              | SPRVAM_Logical \<Rightarrow>
                  TargetTriple s' = TargetTriple s \<and> DataLayout s' = DataLayout s
              | SPRVAM_Other n \<Rightarrow>
                  \<not> ok \<and> BErrorCode BM' = SPRVEC_InvalidAddressingModel
                  \<and> TargetTriple s' = TargetTriple s \<and> DataLayout s' = DataLayout s)))"
proof -
  have a: "translate rest BM s =
     (case BAddressingModel BM of
        SPRVAM_Physical32 \<Rightarrow>
          rest BM (s\<lparr>TargetTriple := ''spir-unknown-unknown'', DataLayout := SPIR_DATALAYOUT32\<rparr>)
      | SPRVAM_Physical64 \<Rightarrow>
          rest BM (s\<lparr>TargetTriple := ''spir64-unknown-unknown'', DataLayout := SPIR_DATALAYOUT64\<rparr>)
      | SPRVAM_Logical \<Rightarrow> rest BM s
      | SPRVAM_Other n \<Rightarrow>
          (False, BM\<lparr>BErrorCode := SPRVEC_InvalidAddressingModel,
                       BErrorMsg := ''Actual addressing mode is '' @ showNat n\<rparr>, s))"
    by (simp add: translate_def transAddressingModel_def setTargetTriple_def setDataLayout_def
        SPIR_TARGETTRIPLE32_def SPIR_TARGETTRIPLE64_def SPRVCKRT_failed_def
        split: SPRVAddressingModelKind.splits)
  have b: "case translate rest BM s of
           (ok, BM', s') \<Rightarrow>
             (case BAddressingModel BM of
                SPRVAM_Physical32 \<Rightarrow>
                  TargetTriple s' = ''spir-unknown-unknown'' \<and> DataLayout s' = SPIR_DATALAYOUT32
              | SPRVAM_Physical64 \<Rightarrow>
                  TargetTriple s' = ''spir64-unknown-unknown'' \<and> DataLayout s' = SPIR_DATALAYOUT64
              | SPRVAM_Logical \<Rightarrow>
                  TargetTriple s' = TargetTriple s \<and> DataLayout s' = DataLayout s
              | SPRVAM_Other n \<Rightarrow>
                  \<not> ok \<and> BErrorCode BM' = SPRVEC_InvalidAddressingModel
                  \<and> TargetTriple s' = TargetTriple s \<and> DataLayout s' = DataLayout s)"
    if k: "keepsTargetTriple rest"
    unfolding a
    by (cases "BAddressingModel BM")
       (auto split: prod.splits dest: keepsTargetTripleD[OF k])
  from a b show ?thesis by blast
qed

theorem translate_addressing_model_witness:
  "keepsTargetTriple noPhases
   \<and> TargetTriple (snd (snd (translate noPhases (exModule SPRVAM_Physical32) Module_new)))
       = ''spir-unknown-unknown''
   \<and> DataLayout (snd (snd (translate noPhases (exModule SPRVAM_Physical64) Module_new)))
       = SPIR_DATALAYOUT64
   \<and> TargetTriple (snd (snd (translate noPhases (exModule SPRVAM_Logical) Module_new))) = []
   \<and> fst (translate noPhases (exModule (SPRVAM_Other 7)) Module_new) = False"
proof -
  have k: "keepsTargetTriple noPhases"
    by (simp add: keepsTargetTriple_def noPhases_def)
  have e: "BAddressingModel (exModule am) = am" for am by (simp add: exModule_def)
  show ?thesis
    using k
      translate_addressing_model[of noPhases "exModule SPRVAM_Physical32" Module_new]
      translate_addressing_model[of noPhases "exModule SPRVAM_Physical64" Module_new]
      translate_addressing_model[of noPhases "exModule SPRVAM_Logical" Module_new]
      translate_addressing_model[of noPhases "exModule (SPRVAM_Other 7)" Module_new]
    by (simp add: e Module_new_def split: prod.splits)
qed




text \<open>
  C9.  With the debug flag set (it is the constant \<open>true\<close>), \<open>ReadSPRV\<close> calls
  \<open>dumpLLVM\<close> on both paths, but \<open>dumpLLVM\<close> writes the module only when opening the file
  failed.  In a world where the file can be opened, whatever the input, the later
  phases and the printer, \<open>ReadSPRV\<close> returns and leaves \<open>_tmp_llvmbil.ll\<close> empty: the
  emitted IR is not in it.
\<close>

theorem ReadSPRV_leaves_debug_file_empty:
  "\<forall>rest print parse IS ErrMsg.
     (case ReadSPRV rest print parse (IS::unit) ErrMsg exWorld of
        Inl e \<Rightarrow> False
      | Inr (ok, M, msg, w') \<Rightarrow> Files w' ''_tmp_llvmbil.ll'' = Some [])"
  by (auto simp: ReadSPRV_def dumpLLVM_def DbgSaveTmpLLVM_def DbgTmpLLVMFileName_def
      exWorld_def Let_def split: prod.splits)

section \<open>Properties of the translation of functions\<close>

lemma newArguments_heap:
  "newArguments F Ts s = (as, s') \<Longrightarrow> a < NextAddr s \<Longrightarrow> Heap s' a = Heap s a"
proof (induction Ts arbitrary: s as s')
  case Nil
  then show ?case by simp
next
  case (Cons T Ts)
  obtain as2 s2 where r: "newArguments F Ts (snd (newValue \<lparr>VKind = ArgumentK, VName = [], VType = T, Operands = [],
                               Parent = Some F, Linkage = ExternalLinkage,
                               CallConv = CallingConv_C, Attrs = (\<lambda>_. {})\<rparr> s)) = (as2, s2)"
    by (cases "newArguments F Ts (snd (newValue \<lparr>VKind = ArgumentK, VName = [], VType = T, Operands = [],
                               Parent = Some F, Linkage = ExternalLinkage,
                               CallConv = CallingConv_C, Attrs = (\<lambda>_. {})\<rparr> s))") auto
  from Cons.prems(1) r have s': "s' = s2"
    by (simp add: newValue_def Let_def split: prod.splits)
  have "Heap s2 a = Heap (snd (newValue \<lparr>VKind = ArgumentK, VName = [], VType = T, Operands = [],
                               Parent = Some F, Linkage = ExternalLinkage,
                               CallConv = CallingConv_C, Attrs = (\<lambda>_. {})\<rparr> s)) a"
    using Cons.IH[OF r] Cons.prems(2) by (simp add: newValue_def)
  then show ?case using s' Cons.prems(2) by (simp add: newValue_def)
qed

lemma newArguments_fresh:
  "newArguments F Ts s = (as, s') \<Longrightarrow> \<forall>x\<in>set as. NextAddr s \<le> x"
proof (induction Ts arbitrary: s as s')
  case Nil
  then show ?case by simp
next
  case (Cons T Ts)
  obtain as2 s2 where r: "newArguments F Ts (snd (newValue \<lparr>VKind = ArgumentK, VName = [], VType = T, Operands = [],
                               Parent = Some F, Linkage = ExternalLinkage,
                               CallConv = CallingConv_C, Attrs = (\<lambda>_. {})\<rparr> s)) = (as2, s2)"
    by (cases "newArguments F Ts (snd (newValue \<lparr>VKind = ArgumentK, VName = [], VType = T, Operands = [],
                               Parent = Some F, Linkage = ExternalLinkage,
                               CallConv = CallingConv_C, Attrs = (\<lambda>_. {})\<rparr> s))") auto
  from Cons.prems(1) r have as: "as = NextAddr s # as2"
    by (simp add: newValue_def Let_def split: prod.splits)
  from Cons.IH[OF r] have "\<forall>x\<in>set as2. Suc (NextAddr s) \<le> x" by (simp add: newValue_def)
  then show ?case using as by auto
qed

lemma newArguments_fields:
  "newArguments F Ts s = (as, s') \<Longrightarrow>
     ModFunctions s' = ModFunctions s \<and> FuncArgs s' = FuncArgs s \<and> FuncMap s' = FuncMap s
     \<and> ValueMap s' = ValueMap s \<and> ModGlobals s' = ModGlobals s"
proof (induction Ts arbitrary: s as s')
  case Nil
  then show ?case by simp
next
  case (Cons T Ts)
  obtain as2 s2 where r: "newArguments F Ts (snd (newValue \<lparr>VKind = ArgumentK, VName = [], VType = T, Operands = [],
                               Parent = Some F, Linkage = ExternalLinkage,
                               CallConv = CallingConv_C, Attrs = (\<lambda>_. {})\<rparr> s)) = (as2, s2)"
    by (cases "newArguments F Ts (snd (newValue \<lparr>VKind = ArgumentK, VName = [], VType = T, Operands = [],
                               Parent = Some F, Linkage = ExternalLinkage,
                               CallConv = CallingConv_C, Attrs = (\<lambda>_. {})\<rparr> s))") auto
  from Cons.prems(1) r have s': "s' = s2"
    by (simp add: newValue_def Let_def split: prod.splits)
  from Cons.IH[OF r] show ?case using s' by (simp add: newValue_def)
qed

lemma Function_Create_result:
  assumes "Function_Create FT L n s = (F, s')"
  shows "\<exists>nm. Heap s' F = Some \<lparr>VKind = FunctionK, VName = nm, VType = PointerTy FT 0,
                               Operands = [], Parent = None, Linkage = L,
                               CallConv = CallingConv_C, Attrs = (\<lambda>_. {})\<rparr>
          \<and> nm = fst (createValueName n s)"
    and "F = NextAddr s"
    and "\<forall>x\<in>set (FuncArgs s' F). F < x"
    and "ModFunctions s' = ModFunctions s @ [F]"
    and "FuncMap s' = FuncMap s" and "ValueMap s' = ValueMap s"
proof -
  obtain nm s1 where c: "createValueName n s = (nm, s1)" by (cases "createValueName n s") auto
  have n1: "NextAddr s1 = NextAddr s" and f1: "ModFunctions s1 = ModFunctions s"
    and m1: "FuncMap s1 = FuncMap s" "ValueMap s1 = ValueMap s"
    using c by (auto simp: createValueName_def Let_def split: if_splits)
  let ?v = "\<lparr>VKind = FunctionK, VName = nm, VType = PointerTy FT 0,
                               Operands = [], Parent = None, Linkage = L,
                               CallConv = CallingConv_C, Attrs = (\<lambda>_. {})\<rparr>"
  let ?s2 = "snd (newValue ?v s1)"
  obtain as s3 where a: "newArguments (NextAddr s1) (getParamTypes FT) ?s2 = (as, s3)"
    by (cases "newArguments (NextAddr s1) (getParamTypes FT) ?s2") auto
  from assms c a have F: "F = NextAddr s1"
    and s': "s' = s3\<lparr>ModFunctions := ModFunctions s3 @ [NextAddr s1], FuncArgs := (FuncArgs s3)(NextAddr s1 := as)\<rparr>"
    by (auto simp: Function_Create_def newValue_def Let_def split: prod.splits)
  have h: "Heap s3 (NextAddr s1) = Heap ?s2 (NextAddr s1)"
    using newArguments_heap[OF a, of "NextAddr s1"] by (simp add: newValue_def)
  show "\<exists>nm. Heap s' F = Some \<lparr>VKind = FunctionK, VName = nm, VType = PointerTy FT 0,
                               Operands = [], Parent = None, Linkage = L,
                               CallConv = CallingConv_C, Attrs = (\<lambda>_. {})\<rparr>
          \<and> nm = fst (createValueName n s)"
    using h F s' c by (simp add: newValue_def)
  show "F = NextAddr s" using F n1 by simp
  show "\<forall>x\<in>set (FuncArgs s' F). F < x"
    using newArguments_fresh[OF a] F s' by (auto simp: newValue_def)
  show "ModFunctions s' = ModFunctions s @ [F]"
    using newArguments_fields[OF a] s' F f1 by (simp add: newValue_def)
  show "FuncMap s' = FuncMap s" "ValueMap s' = ValueMap s"
    using newArguments_fields[OF a] s' m1 by (simp_all add: newValue_def)
qed


lemma coreAt_header:
  "coreAt s F c \<Longrightarrow> Heap s F = Some v \<Longrightarrow> Heap s' F = Some v' \<Longrightarrow> fnHeader v' = fnHeader v \<Longrightarrow> coreAt s' F c"
  by (auto simp: coreAt_def fnCore_def fnHeader_def)




lemma addAttribute_FuncArgs [simp]: "FuncArgs (addAttribute G i k s) = FuncArgs s"
  by (simp add: addAttribute_def split: option.splits)








lemma setCallingConv_FuncArgs [simp]: "FuncArgs (setCallingConv G cc s) = FuncArgs s"
  by (simp add: setCallingConv_def split: option.splits)

lemma addFnAttr_FuncArgs [simp]: "FuncArgs (addFnAttr G k s) = FuncArgs s"
  by (simp add: addFnAttr_def)

lemma foreachFuncCtlMask_FuncArgs [simp]:
  "FuncArgs (foreachFuncCtlMask_addFnAttr FCM G s) = FuncArgs s"
  by (simp add: foreachFuncCtlMask_addFnAttr_def SPIRSPRVFuncCtlMaskMap_def)







lemma transFunctionAttrs_FuncArgs [simp]:
  "FuncArgs (transFunctionAttrs K BF F s) = FuncArgs s"
  by (simp add: transFunctionAttrs_def Let_def)









section \<open>Properties of the builtin calls\<close>

text \<open>The allocator's invariant through the creation of functions and instructions, and
  what each emitter of a builtin call leaves in the module.\<close>

lemma wellFormed_lt: "wellFormed s \<Longrightarrow> Heap s a = Some v \<Longrightarrow> a < NextAddr s"
  unfolding wellFormed_def by (metis not_le option.distinct(1))

lemma wellFormed_fresh: "wellFormed s \<Longrightarrow> NextAddr s \<le> a \<Longrightarrow> Heap s a = None"
  unfolding wellFormed_def by blast

lemma wellFormed_function:
  "wellFormed s \<Longrightarrow> f \<in> set (ModFunctions s) \<Longrightarrow> \<exists>v. Heap s f = Some v \<and> VKind v = FunctionK"
  unfolding wellFormed_def by blast

lemma getFunction_SomeD:
  "getFunction s n = Some f \<Longrightarrow> f \<in> set (ModFunctions s) \<and> getName s f = n"
  unfolding getFunction_def by (auto simp: find_Some_iff)

lemma createValueName_fields:
  "createValueName n s = (nm, s1) \<Longrightarrow>
     Heap s1 = Heap s \<and> NextAddr s1 = NextAddr s \<and> ModFunctions s1 = ModFunctions s
     \<and> ModGlobals s1 = ModGlobals s \<and> FuncArgs s1 = FuncArgs s"
  by (auto simp: createValueName_def Let_def split: if_splits)

lemma newArguments_NextAddr:
  "newArguments F Ts s = (as, s') \<Longrightarrow> NextAddr s \<le> NextAddr s'"
proof (induction Ts arbitrary: s as s')
  case Nil
  then show ?case by simp
next
  case (Cons T Ts)
  let ?s1 = "snd (newValue \<lparr>VKind = ArgumentK, VName = [], VType = T, Operands = [],
                               Parent = Some F, Linkage = ExternalLinkage,
                               CallConv = CallingConv_C, Attrs = (\<lambda>_. {})\<rparr> s)"
  obtain as2 s2 where r: "newArguments F Ts ?s1 = (as2, s2)"
    by (cases "newArguments F Ts ?s1") auto
  from Cons.prems r have s': "s' = s2"
    by (simp add: newValue_def Let_def split: prod.splits)
  from Cons.IH[OF r] show ?case using s' by (simp add: newValue_def)
qed

lemma newArguments_wellFormed:
  "newArguments F Ts s = (as, s') \<Longrightarrow> wellFormed s \<Longrightarrow> wellFormed s'"
proof (induction Ts arbitrary: s as s')
  case Nil
  then show ?case by simp
next
  case (Cons T Ts)
  let ?s1 = "snd (newValue \<lparr>VKind = ArgumentK, VName = [], VType = T, Operands = [],
                               Parent = Some F, Linkage = ExternalLinkage,
                               CallConv = CallingConv_C, Attrs = (\<lambda>_. {})\<rparr> s)"
  obtain as2 s2 where r: "newArguments F Ts ?s1 = (as2, s2)"
    by (cases "newArguments F Ts ?s1") auto
  from Cons.prems(1) r have s': "s' = s2"
    by (simp add: newValue_def Let_def split: prod.splits)
  have "wellFormed ?s1"
    unfolding wellFormed_def
  proof (intro conjI allI impI ballI)
    fix a assume "NextAddr ?s1 \<le> a"
    then show "Heap ?s1 a = None"
      using wellFormed_fresh[OF Cons.prems(2), of a] by (simp add: newValue_def)
  next
    fix f assume "f \<in> set (ModFunctions ?s1)"
    then have "f \<in> set (ModFunctions s)" by (simp add: newValue_def)
    from wellFormed_function[OF Cons.prems(2) this] obtain v
      where v: "Heap s f = Some v" "VKind v = FunctionK" by blast
    have "f \<noteq> NextAddr s" using wellFormed_lt[OF Cons.prems(2) v(1)] by simp
    then show "\<exists>v. Heap ?s1 f = Some v \<and> VKind v = FunctionK"
      using v by (simp add: newValue_def)
  qed
  from Cons.IH[OF r this] show ?case using s' by simp
qed

lemma Function_Create_frame:
  assumes fc: "Function_Create FT L n s = (F, s')"
  shows "a < NextAddr s \<Longrightarrow> Heap s' a = Heap s a"
    and "wellFormed s \<Longrightarrow> wellFormed s'"
    and "NextAddr s < NextAddr s'"
proof -
  obtain nm s1 where c: "createValueName n s = (nm, s1)" by (cases "createValueName n s") auto
  note f1 = createValueName_fields[OF c]
  let ?v = "\<lparr>VKind = FunctionK, VName = nm, VType = PointerTy FT 0,
                               Operands = [], Parent = None, Linkage = L,
                               CallConv = CallingConv_C, Attrs = (\<lambda>_. {})\<rparr>"
  let ?s2 = "snd (newValue ?v s1)"
  obtain as s3 where a: "newArguments (NextAddr s1) (getParamTypes FT) ?s2 = (as, s3)"
    by (cases "newArguments (NextAddr s1) (getParamTypes FT) ?s2") auto
  from fc c a have s': "s' = s3\<lparr>ModFunctions := ModFunctions s3 @ [NextAddr s1], FuncArgs := (FuncArgs s3)(NextAddr s1 := as)\<rparr>"
    by (auto simp: Function_Create_def newValue_def Let_def split: prod.splits)
  show "Heap s' a = Heap s a" if "a < NextAddr s"
    using newArguments_heap[OF a, of a] that f1 s' by (simp add: newValue_def)
  show "wellFormed s'" if "wellFormed s"
  proof -
    have w2: "wellFormed ?s2"
      unfolding wellFormed_def
    proof (intro conjI allI impI ballI)
      fix a assume "NextAddr ?s2 \<le> a"
      then show "Heap ?s2 a = None"
        using wellFormed_fresh[OF that, of a] f1 by (simp add: newValue_def)
    next
      fix f assume "f \<in> set (ModFunctions ?s2)"
      then have "f \<in> set (ModFunctions s)" using f1 by (simp add: newValue_def)
      from wellFormed_function[OF that this] obtain v
        where v: "Heap s f = Some v" "VKind v = FunctionK" by blast
      have "f \<noteq> NextAddr s1" using wellFormed_lt[OF that v(1)] f1 by simp
      then show "\<exists>v. Heap ?s2 f = Some v \<and> VKind v = FunctionK"
        using v f1 by (simp add: newValue_def)
    qed
    have "Heap s3 (NextAddr s1) = Heap ?s2 (NextAddr s1)"
      using newArguments_heap[OF a, of "NextAddr s1"] by (simp add: newValue_def)
    then have hF: "Heap s3 (NextAddr s1) = Some ?v" by (simp add: newValue_def)
    from newArguments_wellFormed[OF a w2] have w3: "wellFormed s3" .
    show ?thesis
      unfolding wellFormed_def
    proof (intro conjI allI impI ballI)
      fix a assume "NextAddr s' \<le> a"
      then show "Heap s' a = None" using wellFormed_fresh[OF w3, of a] s' by simp
    next
      fix f assume "f \<in> set (ModFunctions s')"
      then have "f \<in> set (ModFunctions s3) \<or> f = NextAddr s1" using s' by auto
      then show "\<exists>v. Heap s' f = Some v \<and> VKind v = FunctionK"
        using wellFormed_function[OF w3, of f] hF s' by auto
    qed
  qed
  show "NextAddr s < NextAddr s'"
    using newArguments_NextAddr[OF a] f1 s' by (simp add: newValue_def)
qed

lemma declareBuiltin_result:
  assumes d: "declareBuiltin FT MN s = (Fn, s')"
  shows "Fn = NextAddr s"
    and "Heap s' Fn = Some \<lparr>VKind = FunctionK, VName = fst (createValueName MN s),
                            VType = PointerTy FT 0, Operands = [], Parent = None,
                            Linkage = ExternalLinkage, CallConv = SPIR_FUNC,
                            Attrs = (\<lambda>_. {})(FunctionIndex := {NoUnwind})\<rparr>"
    and "a < NextAddr s \<Longrightarrow> Heap s' a = Heap s a"
    and "wellFormed s \<Longrightarrow> wellFormed s'"
    and "ModFunctions s' = ModFunctions s @ [Fn]"
proof -
  obtain F0 s1 where fc: "Function_Create FT ExternalLinkage MN s = (F0, s1)"
    by (cases "Function_Create FT ExternalLinkage MN s") auto
  note c = Function_Create_result[OF fc] and fr = Function_Create_frame[OF fc]
  from c(1) have h1: "Heap s1 F0 = Some \<lparr>VKind = FunctionK, VName = fst (createValueName MN s),
                            VType = PointerTy FT 0, Operands = [], Parent = None,
                            Linkage = ExternalLinkage, CallConv = CallingConv_C,
                            Attrs = (\<lambda>_. {})\<rparr>"
    by auto
  from d fc have Fn: "Fn = F0"
    and s': "s' = addFnAttr F0 NoUnwind (setCallingConv F0 SPIR_FUNC s1)"
    by (auto simp: declareBuiltin_def Let_def isFuncNoUnwind_def)
  show "Fn = NextAddr s" using Fn c(2) by simp
  show "Heap s' Fn = Some \<lparr>VKind = FunctionK, VName = fst (createValueName MN s),
                            VType = PointerTy FT 0, Operands = [], Parent = None,
                            Linkage = ExternalLinkage, CallConv = SPIR_FUNC,
                            Attrs = (\<lambda>_. {})(FunctionIndex := {NoUnwind})\<rparr>"
    using h1 Fn s' by (simp add: addFnAttr_def addAttribute_def setCallingConv_def)
  show "Heap s' a = Heap s a" if "a < NextAddr s"
    using fr(1)[OF that] that c(2) h1 s'
    by (auto simp: addFnAttr_def addAttribute_def setCallingConv_def)
  show "wellFormed s'" if "wellFormed s"
  proof -
    note w1 = fr(2)[OF that]
    have hp: "Heap s' = (Heap s1)(F0 \<mapsto> \<lparr>VKind = FunctionK, VName = fst (createValueName MN s),
                            VType = PointerTy FT 0, Operands = [], Parent = None,
                            Linkage = ExternalLinkage, CallConv = SPIR_FUNC,
                            Attrs = (\<lambda>_. {})(FunctionIndex := {NoUnwind})\<rparr>)"
      and np: "NextAddr s' = NextAddr s1" and mp: "ModFunctions s' = ModFunctions s1"
      using h1 s' by (auto simp: addFnAttr_def addAttribute_def setCallingConv_def)
    show ?thesis
      unfolding wellFormed_def
    proof (intro conjI allI impI ballI)
      fix a assume "NextAddr s' \<le> a"
      then have "NextAddr s1 \<le> a" using np by simp
      from wellFormed_fresh[OF w1 this] show "Heap s' a = None"
        using hp h1 by (auto split: if_splits)
    next
      fix f assume "f \<in> set (ModFunctions s')"
      then have "f \<in> set (ModFunctions s1)" using mp by simp
      from wellFormed_function[OF w1 this] show "\<exists>v. Heap s' f = Some v \<and> VKind v = FunctionK"
        using hp by auto
    qed
  qed
  show "ModFunctions s' = ModFunctions s @ [Fn]"
    using c(4) h1 Fn s' by (simp add: addFnAttr_def addAttribute_def setCallingConv_def)
qed

lemma transOperands_keep:
  assumes k: "operandsKeepFunctions env" and a: "operandsKeepAllocator env"
  shows "transOperands env Vs F BB s = Inr (r, s') \<Longrightarrow>
           (wellFormed s \<longrightarrow> wellFormed s') \<and>
           (\<forall>f v. Heap s f = Some v \<longrightarrow> VKind v = FunctionK \<longrightarrow>
                (\<exists>v'. Heap s' f = Some v' \<and> fnHeader v' = fnHeader v))"
proof (induction Vs arbitrary: s r)
  case Nil
  then show ?case by simp
next
  case (Cons V Vs)
  from Cons.prems obtain x s1 xs where t: "transOperand env V F BB True s = Inr (x, s1)"
    and rest: "transOperands env Vs F BB s1 = Inr (xs, s')"
    by (auto split: sum.splits)
  have w1: "wellFormed s \<Longrightarrow> wellFormed s1"
    using a t unfolding operandsKeepAllocator_def by blast
  have h1: "\<exists>v'. Heap s1 f = Some v' \<and> fnHeader v' = fnHeader v"
    if "Heap s f = Some v" "VKind v = FunctionK" for f v
    using k t that unfolding operandsKeepFunctions_def by blast
  note ih = Cons.IH[OF rest]
  show ?case
  proof (intro conjI allI impI)
    assume "wellFormed s" then show "wellFormed s'" using w1 ih by blast
  next
    fix f v assume fv: "Heap s f = Some v" "VKind v = FunctionK"
    from h1[OF fv] obtain v1 where v1: "Heap s1 f = Some v1" "fnHeader v1 = fnHeader v" by blast
    then have "VKind v1 = FunctionK" using fv(2) by (simp add: fnHeader_def)
    with ih v1(1) obtain v' where "Heap s' f = Some v'" "fnHeader v' = fnHeader v1" by blast
    with v1(2) show "\<exists>v'. Heap s' f = Some v' \<and> fnHeader v' = fnHeader v" by auto
  qed
qed


lemma emitBuiltinCall_result:
  assumes e: "emitBuiltinCall Fn Args n BB s = Inr (Call, s')"
    and hf: "Heap s Fn = Some fv" and kf: "VKind fv = FunctionK" and w: "wellFormed s"
  shows "Call = NextAddr s" and "Heap s' Fn = Some fv"
    and "\<exists>cv RetTy Ps va sp. Heap s' Call = Some cv \<and> VKind cv = CallInstK
           \<and> Operands cv = Args @ [Some Fn] \<and> VName cv = n \<and> Parent cv = BB
           \<and> VType fv = PointerTy (FunctionTy RetTy Ps va) sp \<and> VType cv = RetTy
           \<and> (if startswith (VName fv) ''llvm.''
               then CallConv cv = CallingConv_C \<and> Attrs cv = (\<lambda>_. {})
               else CallConv cv = CallConv fv \<and> Attrs cv = Attrs fv)"
    and "wellFormed s'" and "NextAddr s' = Suc (NextAddr s)"
    and "a \<noteq> Call \<Longrightarrow> Heap s' a = Heap s a"
    and "getCalledFunction s' Call = Some Fn"
    and "ModFunctions s' = ModFunctions s"
proof -
  have ne: "Fn \<noteq> NextAddr s" using wellFormed_lt[OF w hf] by simp
  from e obtain RetTy Ps va sp where ty: "VType fv = PointerTy (FunctionTy RetTy Ps va) sp"
    using hf
    by (auto simp: emitBuiltinCall_def CallInst_Create_def getFunctionType_def
        split: sum.splits option.splits LType.splits)
  let ?cv0 = "\<lparr>VKind = CallInstK, VName = [], VType = RetTy,
                                Operands = Args @ [Some Fn], Parent = BB,
                                Linkage = ExternalLinkage, CallConv = CallingConv_C,
                                Attrs = (\<lambda>_. {})\<rparr>"
  define s1 where "s1 = snd (newInstruction (?cv0\<lparr>Parent := None\<rparr>) BB s)"
  have ci: "CallInst_Create Fn Args [] BB s = Inr (NextAddr s, s1)"
    using hf ty
    by (simp add: CallInst_Create_def getFunctionType_def s1_def newInstruction_def newValue_def
        split: option.splits)
  have h1: "Heap s1 = (Heap s)(NextAddr s \<mapsto> ?cv0)" and n1: "NextAddr s1 = Suc (NextAddr s)"
    and m1: "ModFunctions s1 = ModFunctions s"
    by (auto simp: s1_def newInstruction_def newValue_def split: option.splits)
  define s2 where "s2 = setName (NextAddr s) n s1"
  have h2: "Heap s2 = (Heap s)(NextAddr s \<mapsto> ?cv0\<lparr>VName := n\<rparr>)" and n2: "NextAddr s2 = Suc (NextAddr s)"
    and m2: "ModFunctions s2 = ModFunctions s"
    using h1 n1 m1 by (auto simp: s2_def setName_def)
  have gc: "getCalledFunction s2 (NextAddr s) = Some Fn"
    using h2 hf kf ne by (simp add: getCalledFunction_def)
  have intr: "isIntrinsic s2 Fn = startswith (VName fv) ''llvm.''"
    using h2 hf ne by (simp add: isIntrinsic_def getName_def)
  from e ci have C: "Call = NextAddr s"
    and s': "setAttrByCalledFunc (NextAddr s) s2 = Inr s'"
    by (auto simp: emitBuiltinCall_def s2_def split: sum.splits)
  let ?cv = "if startswith (VName fv) ''llvm.'' then ?cv0\<lparr>VName := n\<rparr>
             else ?cv0\<lparr>VName := n, CallConv := CallConv fv, Attrs := Attrs fv\<rparr>"
  have h': "Heap s' = (Heap s)(NextAddr s \<mapsto> ?cv)" and n': "NextAddr s' = Suc (NextAddr s)"
    and m': "ModFunctions s' = ModFunctions s"
    using s' gc intr h2 n2 m2 hf ne
    by (auto simp: setAttrByCalledFunc_def setAttributes_def setCallingConv_def
        getCallingConv_def getAttributes_def split: if_splits)
  show "Call = NextAddr s" by (rule C)
  show "Heap s' Fn = Some fv" using h' hf ne by simp
  show "\<exists>cv RetTy Ps va sp. Heap s' Call = Some cv \<and> VKind cv = CallInstK
           \<and> Operands cv = Args @ [Some Fn] \<and> VName cv = n \<and> Parent cv = BB
           \<and> VType fv = PointerTy (FunctionTy RetTy Ps va) sp \<and> VType cv = RetTy
           \<and> (if startswith (VName fv) ''llvm.''
               then CallConv cv = CallingConv_C \<and> Attrs cv = (\<lambda>_. {})
               else CallConv cv = CallConv fv \<and> Attrs cv = Attrs fv)"
    using h' C ty by auto
  show "wellFormed s'"
    unfolding wellFormed_def
  proof (intro conjI allI impI ballI)
    fix a assume "NextAddr s' \<le> a"
    then show "Heap s' a = None" using wellFormed_fresh[OF w, of a] h' n' by simp
  next
    fix f assume "f \<in> set (ModFunctions s')"
    then have "f \<in> set (ModFunctions s)" using m' by simp
    from wellFormed_function[OF w this] obtain v where v: "Heap s f = Some v" "VKind v = FunctionK"
      by blast
    have "f \<noteq> NextAddr s" using wellFormed_lt[OF w v(1)] by simp
    then show "\<exists>v. Heap s' f = Some v \<and> VKind v = FunctionK" using v h' by simp
  qed
  show "NextAddr s' = Suc (NextAddr s)" by (rule n')
  show "Heap s' a = Heap s a" if "a \<noteq> Call" using that h' C by simp
  show "getCalledFunction s' Call = Some Fn"
    using h' C hf kf ne by (simp add: getCalledFunction_def)
  show "ModFunctions s' = ModFunctions s" by (rule m')
qed


lemma declareIfAbsent_result:
  assumes w: "wellFormed s"
    and p: "(case getFunction s MN of None \<Rightarrow> declareBuiltin FT MN s | Some Fn0 \<Rightarrow> (Fn0, s)) = (Fn, s1)"
  shows "wellFormed s1"
    and "\<exists>fv. Heap s1 Fn = Some fv \<and> VKind fv = FunctionK"
    and "if getFunction s MN \<noteq> None then getFunction s MN = Some Fn \<and> s1 = s
         else freshDeclaration s MN FT Fn s1"
proof -
  show "wellFormed s1"
  proof (cases "getFunction s MN")
    case None
    with p have "declareBuiltin FT MN s = (Fn, s1)" by simp
    from declareBuiltin_result(4)[OF this w] show ?thesis .
  next
    case (Some F0)
    with p w show ?thesis by simp
  qed
  show "\<exists>fv. Heap s1 Fn = Some fv \<and> VKind fv = FunctionK"
  proof (cases "getFunction s MN")
    case None
    with p have "declareBuiltin FT MN s = (Fn, s1)" by simp
    from declareBuiltin_result(2)[OF this] show ?thesis by simp
  next
    case (Some F0)
    with p have "Fn = F0" "s1 = s" by simp_all
    with getFunction_SomeD[OF Some] wellFormed_function[OF w] show ?thesis by blast
  qed
  show "if getFunction s MN \<noteq> None then getFunction s MN = Some Fn \<and> s1 = s
         else freshDeclaration s MN FT Fn s1"
  proof (cases "getFunction s MN")
    case None
    with p have d: "declareBuiltin FT MN s = (Fn, s1)" by simp
    have "Heap s Fn = None"
      using declareBuiltin_result(1)[OF d] wellFormed_fresh[OF w, of Fn] by simp
    then show ?thesis using None declareBuiltin_result(2)[OF d]
      by (simp add: freshDeclaration_def)
  next
    case (Some F0)
    with p show ?thesis by simp
  qed
qed

lemma declareIfAbsentOrOtherType_result:
  assumes w: "wellFormed s"
    and p: "(case getFunction s MN of
               None \<Rightarrow> declareBuiltin FT MN s
             | Some Fn0 \<Rightarrow> if getFunctionType s Fn0 \<noteq> Some FT then declareBuiltin FT MN s
                            else (Fn0, s)) = (Fn, s1)"
  shows "wellFormed s1"
    and "\<exists>fv. Heap s1 Fn = Some fv \<and> VKind fv = FunctionK \<and> (\<exists>sp. VType fv = PointerTy FT sp)"
    and "if \<exists>F0. getFunction s MN = Some F0 \<and> getFunctionType s F0 = Some FT
         then getFunction s MN = Some Fn \<and> s1 = s
         else freshDeclaration s MN FT Fn s1"
proof -
  let ?reuse = "\<exists>F0. getFunction s MN = Some F0 \<and> getFunctionType s F0 = Some FT"
  have c: "(?reuse \<and> getFunction s MN = Some Fn \<and> getFunctionType s Fn = Some FT \<and> s1 = s)
           \<or> (\<not> ?reuse \<and> declareBuiltin FT MN s = (Fn, s1))"
    using p by (cases "getFunction s MN") (auto split: if_splits)
  show "wellFormed s1"
    using c w declareBuiltin_result(4)[of FT MN s Fn s1] by blast
  show "\<exists>fv. Heap s1 Fn = Some fv \<and> VKind fv = FunctionK \<and> (\<exists>sp. VType fv = PointerTy FT sp)"
    using c
  proof (elim disjE conjE)
    assume g: "getFunction s MN = Some Fn" and ty: "getFunctionType s Fn = Some FT" and e: "s1 = s"
    from getFunction_SomeD[OF g] wellFormed_function[OF w] obtain v
      where v: "Heap s Fn = Some v" "VKind v = FunctionK" by blast
    from ty v(1) have "\<exists>sp. VType v = PointerTy FT sp"
      by (auto simp: getFunctionType_def split: LType.splits)
    with v e show ?thesis by simp
  next
    assume d: "declareBuiltin FT MN s = (Fn, s1)"
    from declareBuiltin_result(2)[OF d] show ?thesis by simp
  qed
  show "if ?reuse then getFunction s MN = Some Fn \<and> s1 = s else freshDeclaration s MN FT Fn s1"
    using c
  proof (elim disjE conjE)
    assume "?reuse" "getFunction s MN = Some Fn" "s1 = s"
    then show ?thesis by simp
  next
    assume n: "\<not> ?reuse" and d: "declareBuiltin FT MN s = (Fn, s1)"
    have "Heap s Fn = None"
      using declareBuiltin_result(1)[OF d] wellFormed_fresh[OF w, of Fn] by simp
    then have "freshDeclaration s MN FT Fn s1" using declareBuiltin_result(2)[OF d]
      by (simp add: freshDeclaration_def)
    then show ?thesis by (simp only: n if_False)
  qed
qed

lemma freshDeclaration_header:
  assumes "freshDeclaration s MN FT Fn s1" and "Heap s1 Fn = Some fv"
    and "Heap s3 Fn = Some fv'" and "fnHeader fv' = fnHeader fv"
  shows "freshDeclaration s MN FT Fn s3"
  using assms by (auto simp: freshDeclaration_def fnHeader_def)

lemma emit_after_operands:
  assumes k: "operandsKeepFunctions env" and a: "operandsKeepAllocator env"
    and w1: "wellFormed s1" and hf: "Heap s1 Fn = Some fv" and kf: "VKind fv = FunctionK"
    and t: "transOperands env Vs F BB s1 = Inr (Args, s2)"
    and e: "emitBuiltinCall Fn Args n BB s2 = Inr (Call, s3)"
  shows "\<exists>fv'. Heap s3 Fn = Some fv' \<and> fnHeader fv' = fnHeader fv"
    and "callSiteFromCallee s3 Call Fn"
    and "wellFormed s3"
    and "\<exists>cv RetTy Ps va sp. Heap s3 Call = Some cv \<and> VKind cv = CallInstK
            \<and> VType fv = PointerTy (FunctionTy RetTy Ps va) sp \<and> VType cv = RetTy"
    and "Call \<noteq> Fn"
proof -
  from transOperands_keep[OF k a t] w1 hf kf obtain fv2
    where w2: "wellFormed s2" and h2: "Heap s2 Fn = Some fv2" and hd: "fnHeader fv2 = fnHeader fv"
    by blast
  have k2: "VKind fv2 = FunctionK" using hd kf by (simp add: fnHeader_def)
  note r = emitBuiltinCall_result[OF e h2 k2 w2]
  show "\<exists>fv'. Heap s3 Fn = Some fv' \<and> fnHeader fv' = fnHeader fv" using r(2) hd by simp
  show "wellFormed s3" by (rule r(4))
  from r(3) obtain cv RetTy Ps va sp where cv: "Heap s3 Call = Some cv" "VKind cv = CallInstK"
    "VType fv2 = PointerTy (FunctionTy RetTy Ps va) sp" "VType cv = RetTy"
    "if startswith (VName fv2) ''llvm.''
       then CallConv cv = CallingConv_C \<and> Attrs cv = (\<lambda>_. {})
       else CallConv cv = CallConv fv2 \<and> Attrs cv = Attrs fv2"
    by blast
  show "callSiteFromCallee s3 Call Fn"
    unfolding callSiteFromCallee_def using cv r(2) r(7) by blast
  have "VType fv2 = VType fv" using hd by (simp add: fnHeader_def)
  with cv show "\<exists>cv RetTy Ps va sp. Heap s3 Call = Some cv \<and> VKind cv = CallInstK
            \<and> VType fv = PointerTy (FunctionTy RetTy Ps va) sp \<and> VType cv = RetTy"
    by auto
  show "Call \<noteq> Fn" using r(1) wellFormed_lt[OF w2 h2] by simp
qed


lemma getCalledFunction_SomeD:
  "getCalledFunction s c = Some f \<Longrightarrow>
     \<exists>v. Heap s c = Some v \<and> Operands v \<noteq> [] \<and> last (Operands v) = Some f"
  by (auto simp: getCalledFunction_def split: option.splits if_splits)

lemma getCalledFunction_frame:
  assumes "getCalledFunction s c = Some f" and "Heap s' c = Heap s c" and "Heap s' f = Heap s f"
  shows "getCalledFunction s' c = Some f"
  using assms by (auto simp: getCalledFunction_def split: option.splits if_splits)

lemma callSiteFromCallee_frame:
  assumes "callSiteFromCallee s Call Fn" and "Heap s' Call = Heap s Call" and "Heap s' Fn = Heap s Fn"
  shows "callSiteFromCallee s' Call Fn"
proof -
  from assms(1) obtain cv fv where c: "Heap s Call = Some cv" "Heap s Fn = Some fv" "VKind cv = CallInstK"
    "getCalledFunction s Call = Some Fn"
    "if startswith (VName fv) ''llvm.''
       then CallConv cv = CallingConv_C \<and> Attrs cv = (\<lambda>_. {})
       else CallConv cv = CallConv fv \<and> Attrs cv = Attrs fv"
    unfolding callSiteFromCallee_def by blast
  from getCalledFunction_frame[OF c(4) assms(2) assms(3)] c assms(2,3)
  show ?thesis unfolding callSiteFromCallee_def by auto
qed

lemma Postproc_result:
  assumes p: "transOCLBuiltinFromInstPostproc env BI Call BB s3 = Inr (r, s')"
  shows "a < NextAddr s3 \<Longrightarrow> Heap s' a = Heap s3 a"
    and "if isCmpOpCode env (BOpCode BI) \<and> (\<exists>BT. BType BI = Some BT \<and> isTypeVectorOrScalarBool BT)
         then \<exists>rv Ty. Heap s' r = Some rv \<and> VKind rv = CastInstK Trunc
                \<and> Operands rv = [Some Call] \<and> transType env (the (BType BI)) = Inr Ty
                \<and> VType rv = Ty
         else r = Call"
proof -
  let ?c = "isCmpOpCode env (BOpCode BI) \<and> (\<exists>BT. BType BI = Some BT \<and> isTypeVectorOrScalarBool BT)"
  show "Heap s' a = Heap s3 a" if "a < NextAddr s3"
    using p that
    by (auto simp: transOCLBuiltinFromInstPostproc_def getBType_def CastInst_Create_def
        newInstruction_def newValue_def split: if_splits option.splits sum.splits)
  show "if ?c then \<exists>rv Ty. Heap s' r = Some rv \<and> VKind rv = CastInstK Trunc
                \<and> Operands rv = [Some Call] \<and> transType env (the (BType BI)) = Inr Ty
                \<and> VType rv = Ty
         else r = Call"
  proof (cases ?c)
    case True
    then obtain BT where bt: "BType BI = Some BT" "isTypeVectorOrScalarBool BT"
      and cmp: "isCmpOpCode env (BOpCode BI)" by blast
    from p bt cmp obtain Ty where ty: "transType env BT = Inr Ty"
      and c: "CastInst_Create Trunc Call Ty ''cvt'' BB s3 = (r, s')"
      by (auto simp: transOCLBuiltinFromInstPostproc_def getBType_def split: sum.splits)
    from c have "Heap s' r = Some \<lparr>VKind = CastInstK Trunc, VName = ''cvt'', VType = Ty,
                      Operands = [Some Call], Parent = BB,
                      Linkage = ExternalLinkage, CallConv = CallingConv_C,
                      Attrs = (\<lambda>_. {})\<rparr>"
      by (auto simp: CastInst_Create_def newInstruction_def newValue_def split: option.splits)
    then have x: "\<exists>rv Ty. Heap s' r = Some rv \<and> VKind rv = CastInstK Trunc
                \<and> Operands rv = [Some Call] \<and> transType env (the (BType BI)) = Inr Ty
                \<and> VType rv = Ty"
      using ty bt by simp
    show ?thesis unfolding if_P[OF True] by (rule x)
  next
    case False
    with p have x: "r = Call"
      by (auto simp: transOCLBuiltinFromInstPostproc_def getBType_def
          split: if_splits option.splits sum.splits)
    show ?thesis unfolding if_not_P[OF False] by (rule x)
  qed
qed

lemma builtinFromInstSignature_type:
  "builtinFromInstSignature env n BI = Inr (MN, FT) \<Longrightarrow> \<exists>RetTy Ps. FT = FunctionTy RetTy Ps False"
  by (auto simp: builtinFromInstSignature_def Let_def split: sum.splits)

lemma transOCLBuiltinFromInst_named_result:
  assumes k: "operandsKeepFunctions env" and a: "operandsKeepAllocator env" and w: "wellFormed s"
    and sg: "builtinFromInstSignature env n BI = Inr (MN, FT)"
    and r: "transOCLBuiltinFromInst_named env n BI BB s = Inr (r, s')"
  shows "\<exists>Fn Call.
           (if \<exists>F0. getFunction s MN = Some F0 \<and> getFunctionType s F0 = Some FT
            then getFunction s MN = Some Fn else freshDeclaration s MN FT Fn s')
           \<and> callSiteFromCallee s' Call Fn
           \<and> (\<exists>cv RetTy Ps va. Heap s' Call = Some cv \<and> FT = FunctionTy RetTy Ps va
                  \<and> VType cv = RetTy)
           \<and> (if isCmpOpCode env (BOpCode BI)
                  \<and> (\<exists>BT. BType BI = Some BT \<and> isTypeVectorOrScalarBool BT)
               then \<exists>rv Ty. Heap s' r = Some rv \<and> VKind rv = CastInstK Trunc
                      \<and> Operands rv = [Some Call] \<and> transType env (the (BType BI)) = Inr Ty
                      \<and> VType rv = Ty
               else r = Call)"
proof -
  let ?reuse = "\<exists>F0. getFunction s MN = Some F0 \<and> getFunctionType s F0 = Some FT"
  obtain Fn s1 where p: "(case getFunction s MN of
               None \<Rightarrow> declareBuiltin FT MN s
             | Some Fn0 \<Rightarrow> if getFunctionType s Fn0 \<noteq> Some FT then declareBuiltin FT MN s
                            else (Fn0, s)) = (Fn, s1)"
    by (cases "(case getFunction s MN of
               None \<Rightarrow> declareBuiltin FT MN s
             | Some Fn0 \<Rightarrow> if getFunctionType s Fn0 \<noteq> Some FT then declareBuiltin FT MN s
                            else (Fn0, s))") auto
  note d = declareIfAbsentOrOtherType_result[OF w p]
  from d(2) obtain fv sp where fv: "Heap s1 Fn = Some fv" "VKind fv = FunctionK"
    "VType fv = PointerTy FT sp" by blast
  from r sg p obtain bb Args s2 Call s3 where bb: "BB = Some bb"
    and t: "transOperands env (BOperands BI) (getParent s1 bb) BB s1 = Inr (Args, s2)"
    and e: "emitBuiltinCall Fn Args (BName BI) BB s2 = Inr (Call, s3)"
    and pp: "transOCLBuiltinFromInstPostproc env BI Call BB s3 = Inr (r, s')"
    by (auto simp: transOCLBuiltinFromInst_named_def split: option.splits sum.splits)
  note m = emit_after_operands[OF k a d(1) fv(1) fv(2) t e]
  from m(1) obtain fv3 where fv3: "Heap s3 Fn = Some fv3" "fnHeader fv3 = fnHeader fv" by blast
  from m(4) obtain cv RetTy Ps va sp' where cv: "Heap s3 Call = Some cv"
    "VType fv = PointerTy (FunctionTy RetTy Ps va) sp'" "VType cv = RetTy" by blast
  note q = Postproc_result[OF pp]
  have hF: "Heap s' Fn = Heap s3 Fn" using q(1)[of Fn] wellFormed_lt[OF m(3) fv3(1)] by simp
  have hC: "Heap s' Call = Heap s3 Call" using q(1)[of Call] wellFormed_lt[OF m(3) cv(1)] by simp
  have c1: "if ?reuse then getFunction s MN = Some Fn else freshDeclaration s MN FT Fn s'"
  proof (cases ?reuse)
    case True
    with d(3) show ?thesis by (simp only: if_True)
  next
    case False
    with d(3) have "freshDeclaration s MN FT Fn s1" by (simp only: if_False)
    from freshDeclaration_header[OF this fv(1) _ fv3(2), of s'] hF fv3(1)
    have "freshDeclaration s MN FT Fn s'" by simp
    then show ?thesis by (simp only: False if_False)
  qed
  have c2: "callSiteFromCallee s' Call Fn" by (rule callSiteFromCallee_frame[OF m(2) hC hF])
  have c3: "\<exists>cv RetTy Ps va. Heap s' Call = Some cv \<and> FT = FunctionTy RetTy Ps va \<and> VType cv = RetTy"
    using cv fv(3) hC by auto
  from c1 c2 c3 q(2) show ?thesis by blast
qed


lemma transOCLAtomic_result:
  assumes k: "operandsKeepFunctions env" and a: "operandsKeepAllocator env" and w: "wellFormed s"
    and sg: "atomicSignature env BA = Inr (MN, FT)"
    and r: "transOCLAtomic env BA BB s = Inr (r, s')"
  shows "\<exists>Fn. (if getFunction s MN \<noteq> None then getFunction s MN = Some Fn
                else freshDeclaration s MN FT Fn s')
              \<and> callSiteFromCallee s' r Fn"
proof -
  obtain Fn s1 where p: "(case getFunction s MN of None \<Rightarrow> declareBuiltin FT MN s
                           | Some Fn0 \<Rightarrow> (Fn0, s)) = (Fn, s1)"
    by (cases "(case getFunction s MN of None \<Rightarrow> declareBuiltin FT MN s
                           | Some Fn0 \<Rightarrow> (Fn0, s))") auto
  note d = declareIfAbsent_result[OF w p]
  from d(2) obtain fv where fv: "Heap s1 Fn = Some fv" "VKind fv = FunctionK" by blast
  from r sg p obtain bb Args s2 where bb: "BB = Some bb"
    and t: "transOperands env (BOperands BA) (getParent s1 bb) BB s1 = Inr (Args, s2)"
    and e: "emitBuiltinCall Fn Args (BName BA) BB s2 = Inr (r, s')"
    by (auto simp: transOCLAtomic_def split: option.splits sum.splits)
  note m = emit_after_operands[OF k a d(1) fv(1) fv(2) t e]
  from m(1) obtain fv3 where fv3: "Heap s' Fn = Some fv3" "fnHeader fv3 = fnHeader fv" by blast
  have c1: "if getFunction s MN \<noteq> None then getFunction s MN = Some Fn
            else freshDeclaration s MN FT Fn s'"
  proof (cases "getFunction s MN \<noteq> None")
    case True
    from d(3) have "getFunction s MN = Some Fn" unfolding if_P[OF True] by simp
    then show ?thesis unfolding if_P[OF True] .
  next
    case False
    from d(3) have "freshDeclaration s MN FT Fn s1" unfolding if_not_P[OF False] .
    from freshDeclaration_header[OF this fv(1) fv3]
    show ?thesis unfolding if_not_P[OF False] .
  qed
  from c1 m(2) show ?thesis by blast
qed

lemma ConstantInt_get_result:
  assumes c: "ConstantInt_get Ty n s = (A, s')" and w: "wellFormed s"
  shows "wellFormed s'" and "a < NextAddr s \<Longrightarrow> Heap s' a = Heap s a"
proof -
  have h: "Heap s' = (Heap s)(NextAddr s \<mapsto> \<lparr>VKind = ConstantIntK n, VName = [], VType = Ty, Operands = [],
                Parent = None, Linkage = ExternalLinkage, CallConv = CallingConv_C,
                Attrs = (\<lambda>_. {})\<rparr>)"
    and n: "NextAddr s' = Suc (NextAddr s)" and m: "ModFunctions s' = ModFunctions s"
    using c by (auto simp: ConstantInt_get_def newValue_def)
  show "Heap s' a = Heap s a" if "a < NextAddr s" using that h by simp
  show "wellFormed s'"
    unfolding wellFormed_def
  proof (intro conjI allI impI ballI)
    fix a assume "NextAddr s' \<le> a"
    then show "Heap s' a = None" using wellFormed_fresh[OF w, of a] h n by simp
  next
    fix f assume "f \<in> set (ModFunctions s')"
    then have "f \<in> set (ModFunctions s)" using m by simp
    from wellFormed_function[OF w this] obtain v where v: "Heap s f = Some v" "VKind v = FunctionK"
      by blast
    have "f \<noteq> NextAddr s" using wellFormed_lt[OF w v(1)] by simp
    then show "\<exists>v. Heap s' f = Some v \<and> VKind v = FunctionK" using v h by simp
  qed
qed

lemma transOCLBarrierFence_result:
  assumes w: "wellFormed s"
    and sg: "barrierSignature env MB = Inr (MN, FT)"
    and r: "transOCLBarrierFence env MB BB s = Inr (r, s')"
  shows "\<exists>Fn. (if getFunction s MN \<noteq> None then getFunction s MN = Some Fn
                else freshDeclaration s MN FT Fn s')
              \<and> callSiteFromCallee s' r Fn"
proof -
  obtain Fn s1 where p: "(case getFunction s MN of None \<Rightarrow> declareBuiltin FT MN s
                           | Some Fn0 \<Rightarrow> (Fn0, s)) = (Fn, s1)"
    by (cases "(case getFunction s MN of None \<Rightarrow> declareBuiltin FT MN s
                           | Some Fn0 \<Rightarrow> (Fn0, s))") auto
  note d = declareIfAbsent_result[OF w p]
  from d(2) obtain fv where fv: "Heap s1 Fn = Some fv" "VKind fv = FunctionK" by blast
  obtain Arg s2 where c: "ConstantInt_get (IntegerTy 32)
          (int (rmapBitMask (SPIRSPRVMemFenceFlagMap env) (BMemSemantic MB))) s1 = (Arg, s2)"
    by (cases "ConstantInt_get (IntegerTy 32)
          (int (rmapBitMask (SPIRSPRVMemFenceFlagMap env) (BMemSemantic MB))) s1") auto
  note g = ConstantInt_get_result[OF c d(1)]
  have fv2: "Heap s2 Fn = Some fv" using g(2)[of Fn] wellFormed_lt[OF d(1) fv(1)] fv(1) by simp
  from r sg p c obtain bb where bb: "BB = Some bb"
    and e: "emitBuiltinCall Fn [Some Arg] (BName MB) BB s2 = Inr (r, s')"
    by (auto simp: transOCLBarrierFence_def Let_def split: option.splits sum.splits)
  note m = emitBuiltinCall_result[OF e fv2 fv(2) g(1)]
  from m(3) obtain cv where cv: "Heap s' r = Some cv" "VKind cv = CallInstK"
    "if startswith (VName fv) ''llvm.''
       then CallConv cv = CallingConv_C \<and> Attrs cv = (\<lambda>_. {})
       else CallConv cv = CallConv fv \<and> Attrs cv = Attrs fv"
    by blast
  have c2: "callSiteFromCallee s' r Fn"
    unfolding callSiteFromCallee_def using cv m(2) m(7) by blast
  have c1: "if getFunction s MN \<noteq> None then getFunction s MN = Some Fn
            else freshDeclaration s MN FT Fn s'"
  proof (cases "getFunction s MN \<noteq> None")
    case True
    from d(3) have "getFunction s MN = Some Fn" unfolding if_P[OF True] by simp
    then show ?thesis unfolding if_P[OF True] .
  next
    case False
    from d(3) have "freshDeclaration s MN FT Fn s1" unfolding if_not_P[OF False] .
    from freshDeclaration_header[OF this fv(1) m(2) refl]
    show ?thesis unfolding if_not_P[OF False] .
  qed
  from c1 c2 show ?thesis by blast
qed

lemma transOCLBuiltinFromExtInst_result:
  assumes k: "operandsKeepFunctions env" and a: "operandsKeepAllocator env" and w: "wellFormed s"
    and sg: "extInstCallSignature env BM BC = Inr (MN, FT, Vals)"
    and r: "transOCLBuiltinFromExtInst env BM BC BB s = Inr (r, s')"
  shows "\<exists>Fn. (if getFunction s MN \<noteq> None then getFunction s MN = Some Fn
                else freshDeclaration s MN FT Fn s')
              \<and> callSiteNoUnwind s' r Fn"
proof -
  obtain Fn s1 where p: "(case getFunction s MN of None \<Rightarrow> declareBuiltin FT MN s
                           | Some Fn0 \<Rightarrow> (Fn0, s)) = (Fn, s1)"
    by (cases "(case getFunction s MN of None \<Rightarrow> declareBuiltin FT MN s
                           | Some Fn0 \<Rightarrow> (Fn0, s))") auto
  note d = declareIfAbsent_result[OF w p]
  from d(2) obtain fv where fv: "Heap s1 Fn = Some fv" "VKind fv = FunctionK" by blast
  from r sg p obtain bb Args s2 s3 s4 where bb: "BB = Some bb"
    and t: "transOperands env Vals (Some Fn) BB s1 = Inr (Args, s2)"
    and ci: "CallInst_Create Fn Args (BName BC) BB s2 = Inr (r, s3)"
    and cc: "setCallingConv_Call r s3 = Inr s4"
    and s': "s' = addFnAttr_Call r NoUnwind s4"
    by (auto simp: transOCLBuiltinFromExtInst_def split: option.splits sum.splits)
  from transOperands_keep[OF k a t] d(1) fv obtain fv2
    where w2: "wellFormed s2" and h2: "Heap s2 Fn = Some fv2" and hd: "fnHeader fv2 = fnHeader fv"
    by blast
  have k2: "VKind fv2 = FunctionK" using hd fv(2) by (simp add: fnHeader_def)
  have ne: "Fn \<noteq> NextAddr s2" using wellFormed_lt[OF w2 h2] by simp
  from ci h2 obtain RetTy where
    rr: "r = NextAddr s2"
    and h3: "Heap s3 = (Heap s2)(NextAddr s2 \<mapsto> \<lparr>VKind = CallInstK, VName = BName BC, VType = RetTy,
                                Operands = Args @ [Some Fn], Parent = BB,
                                Linkage = ExternalLinkage, CallConv = CallingConv_C,
                                Attrs = (\<lambda>_. {})\<rparr>)"
    by (auto simp: CallInst_Create_def getFunctionType_def newInstruction_def newValue_def
        split: option.splits LType.splits)
  have gc3: "getCalledFunction s3 r = Some Fn"
    using h3 rr h2 k2 ne by (simp add: getCalledFunction_def)
  from cc gc3 have s4: "s4 = setCallingConv r (getCallingConv s3 Fn) s3"
    by (simp add: setCallingConv_Call_def)
  have cc3: "getCallingConv s3 Fn = CallConv fv2" using h3 h2 ne by (simp add: getCallingConv_def)
  have h': "Heap s' = (Heap s2)(NextAddr s2 \<mapsto> \<lparr>VKind = CallInstK, VName = BName BC, VType = RetTy,
                                Operands = Args @ [Some Fn], Parent = BB,
                                Linkage = ExternalLinkage, CallConv = CallConv fv2,
                                Attrs = (\<lambda>_. {})(FunctionIndex := {NoUnwind})\<rparr>)"
    using s' s4 cc3 h3 rr
    by (simp add: addFnAttr_Call_def addAttribute_def setCallingConv_def)
  have hF: "Heap s' Fn = Some fv2" using h' h2 ne by simp
  have gc: "getCalledFunction s' r = Some Fn"
    using h' rr h2 k2 ne by (simp add: getCalledFunction_def)
  have c2: "callSiteNoUnwind s' r Fn"
    unfolding callSiteNoUnwind_def using h' rr hF gc by simp
  have c1: "if getFunction s MN \<noteq> None then getFunction s MN = Some Fn
            else freshDeclaration s MN FT Fn s'"
  proof (cases "getFunction s MN \<noteq> None")
    case True
    from d(3) have "getFunction s MN = Some Fn" unfolding if_P[OF True] by simp
    then show ?thesis unfolding if_P[OF True] .
  next
    case False
    from d(3) have "freshDeclaration s MN FT Fn s1" unfolding if_not_P[OF False] .
    from freshDeclaration_header[OF this fv(1) hF hd]
    show ?thesis unfolding if_not_P[OF False] .
  qed
  from c1 c2 show ?thesis by blast
qed

end
